theory Spec2Isabelle
  imports Complex_Main "HOL-Library.Sublist"
begin

section \<open>Values exchanged with the model host and the league provider\<close>

text \<open>
  The tool arguments arrive as a JSON text that \<^verbatim>\<open>json.loads\<close> turns into a Python
  value. The handlers receive these values unchecked, so the model keeps them dynamically
  typed. Finite floats are rationals. A JSON object lists each key once.
\<close>

datatype json =
    JNull
  | JBool bool
  | JInt int
  | JNum rat
  | JStr string
  | JArr "json list"
  | JObj "(string \<times> json) list"

text \<open>Python truthiness (\<^verbatim>\<open>if position\<close>, \<^verbatim>\<open>if tool_name\<close>).\<close>

fun truthy :: "json \<Rightarrow> bool" where
  "truthy JNull = False"
| "truthy (JBool b) = b"
| "truthy (JInt i) = (i \<noteq> 0)"
| "truthy (JNum q) = (q \<noteq> 0)"
| "truthy (JStr s) = (s \<noteq> [])"
| "truthy (JArr xs) = (xs \<noteq> [])"
| "truthy (JObj kvs) = (kvs \<noteq> [])"

text \<open>Python \<^verbatim>\<open>==\<close> between an integer attribute and a JSON value: numbers compare by
  value, \<^verbatim>\<open>True\<close> is 1 and \<^verbatim>\<open>False\<close> is 0, everything else differs.\<close>

fun py_eq_int :: "int \<Rightarrow> json \<Rightarrow> bool" where
  "py_eq_int i (JInt j) = (i = j)"
| "py_eq_int i (JBool b) = (i = (if b then 1 else 0))"
| "py_eq_int i (JNum q) = (of_int i = q)"
| "py_eq_int i _ = False"

text \<open>The exceptions the modelled code can raise.\<close>

datatype exn =
    AttributeError
  | TypeError
  | ProviderError string
  | HostError string

text \<open>\<^verbatim>\<open>tool_args.get(key, default)\<close>: only a dict has \<^verbatim>\<open>get\<close>.\<close>

fun args_get :: "json \<Rightarrow> string \<Rightarrow> json \<Rightarrow> exn + json" where
  "args_get (JObj kvs) k d = Inr (case map_of kvs k of None \<Rightarrow> d | Some v \<Rightarrow> v)"
| "args_get _ k d = Inl AttributeError"

text \<open>\<^verbatim>\<open>xs[:size]\<close>: \<^verbatim>\<open>None\<close> keeps the whole list, a negative bound counts from the
  end, a bool is an integer, any other JSON value is a \<^verbatim>\<open>TypeError\<close>.\<close>

fun py_slice_to :: "json \<Rightarrow> 'a list \<Rightarrow> exn + 'a list" where
  "py_slice_to JNull xs = Inr xs"
| "py_slice_to (JInt n) xs =
     Inr (if 0 \<le> n then take (nat n) xs else take (length xs - nat (- n)) xs)"
| "py_slice_to (JBool b) xs = Inr (take (if b then 1 else 0) xs)"
| "py_slice_to _ xs = Inl TypeError"

text \<open>\<^verbatim>\<open>round(x, n)\<close>: to the nearest multiple of \<open>10 ^ -n\<close>, ties to even.\<close>

definition round_half_even :: "rat \<Rightarrow> int" where
  "round_half_even x =
     (let f = \<lfloor>x\<rfloor>; d = x - of_int f
      in if d < 1 / 2 then f else if 1 / 2 < d then f + 1
         else if even f then f else f + 1)"

definition py_round :: "rat \<Rightarrow> nat \<Rightarrow> rat" where
  "py_round x n = of_int (round_half_even (x * 10 ^ n)) / 10 ^ n"

section \<open>League snapshot (fantasy\_data.py)\<close>

text \<open>
  The provider's objects are duck-typed: an attribute the code guards with
  \<^verbatim>\<open>hasattr\<close> is an optional field, \<open>None\<close> when absent. \<open>stats\<close> is \<open>None\<close>
  when the attribute is absent or is not a dict. \<open>repr\<close> is what \<^verbatim>\<open>str(player)\<close>
  gives. \<^verbatim>\<open>league.free_agents\<close> is a remote query and may raise.
\<close>

record stat_line =
  projected_points :: "rat option"
  points :: "rat option"

record player =
  playerId :: "int option"
  name :: "string option"
  repr :: string
  position :: "string option"
  proTeam :: "string option"
  stats :: "(int \<times> stat_line) list option"
  injuryStatus :: "string option"
  projected_avg_points :: "rat option"
  lineupSlot :: "string option"

record team =
  team_id :: "int option"
  team_name :: string
  wins :: int
  losses :: int
  points_for :: rat
  points_against :: "rat option"
  roster :: "player list option"

record league =
  current_week :: int
  teams :: "team list"
  free_agents :: "int \<Rightarrow> exn + player list"

text \<open>\<^verbatim>\<open>team.roster if hasattr(team, 'roster') else []\<close>.\<close>

definition team_roster :: "team \<Rightarrow> player list" where
  "team_roster t = (case roster t of Some r \<Rightarrow> r | None \<Rightarrow> [])"

definition BYE_WEEKS :: "(string \<times> int) list" where
  "BYE_WEEKS =
     [(''ARI'', 8), (''ATL'', 5), (''BAL'', 7), (''BUF'', 7), (''CAR'', 14), (''CHI'', 5),
      (''CIN'', 10), (''CLE'', 9), (''DAL'', 10), (''DEN'', 12), (''DET'', 8), (''GB'', 5),
      (''HOU'', 6), (''IND'', 11), (''JAX'', 8), (''KC'', 10), (''LV'', 8), (''LAC'', 12),
      (''LAR'', 8), (''MIA'', 12), (''MIN'', 6), (''NE'', 14), (''NO'', 11), (''NYG'', 14),
      (''NYJ'', 9), (''PHI'', 9), (''PIT'', 5), (''SF'', 14), (''SEA'', 8), (''TB'', 9),
      (''TEN'', 10), (''WSH'', 12)]"

definition get_player_bye_week :: "player \<Rightarrow> int option" where
  "get_player_bye_week p =
     (case proTeam p of None \<Rightarrow> None | Some t \<Rightarrow> map_of BYE_WEEKS t)"

text \<open>The current week's projection as the three list-building functions read it:
  0 unless \<open>stats\<close> is a dict holding the current week with a \<open>projected_points\<close> entry.\<close>

definition weekly_projection :: "league \<Rightarrow> player \<Rightarrow> rat" where
  "weekly_projection lg p =
     (case stats p of
        None \<Rightarrow> 0
      | Some st \<Rightarrow>
          (case map_of st (current_week lg) of
             None \<Rightarrow> 0
           | Some line \<Rightarrow> (case projected_points line of None \<Rightarrow> 0 | Some v \<Rightarrow> v)))"

section \<open>Tool results\<close>

text \<open>
  A handler returns a dict; the driver sends \<^verbatim>\<open>json.dumps\<close> of it. The model keeps the
  dict as a structured value, one constructor per shape, and an f-string as the value it
  formats: \<open>ErrorResult\<close> is \<^verbatim>\<open>{"error": ...}\<close>, \<open>MessageResult\<close> is
  \<^verbatim>\<open>{"message": ...}\<close>. The constant \<^verbatim>\<open>note\<close> entries are left out.
\<close>

datatype tool_error =
    InvalidPosition json
  | TeamNotFound json
  | PlayerNotFound json

record player_info =
  pi_player_id :: "int option"
  pi_name :: string
  pi_position :: string
  pi_team :: string
  pi_projected_points :: rat
  pi_bye_week :: "int option"
  pi_injury_status :: "string option"

record roster_entry =
  re_player_id :: "int option"
  re_name :: string
  re_position :: string
  re_lineup_slot :: string
  re_projected_points :: rat
  re_bye_week :: "int option"
  re_injury_status :: "string option"

record team_details =
  td_team_name :: string
  td_record :: "int \<times> int"
  td_points_for :: rat
  td_points_against :: rat
  td_roster_strength :: rat
  td_starters :: "roster_entry list"
  td_bench :: "roster_entry list"

record weekly_data =
  wd_projected_points :: rat
  wd_actual_points :: rat
  wd_completed :: bool

record player_stats =
  ps_player_id :: "int option"
  ps_name :: string
  ps_position :: string
  ps_team :: string
  ps_fantasy_team :: string
  ps_projected_avg_points :: rat
  ps_bye_week :: "int option"
  ps_injury_status :: "string option"
  ps_weekly_stats :: "(int \<times> weekly_data) list"

datatype tool_result =
    ErrorResult tool_error
  | MessageResult "json option"
  | WaiverWire json "player_info list" nat
  | TeamDetails team_details
  | PlayerStats player_stats

section \<open>get\_waiver\_wire\_for\_tool\<close>

definition valid_positions :: "string list" where
  "valid_positions = [''QB'', ''RB'', ''WR'', ''TE'', ''K'', ''D/ST'', ''DST'']"

text \<open>The loop's \<^verbatim>\<open>continue\<close>: a position filter is set, the player has a position,
  and it differs.\<close>

definition skipped_by_position :: "json \<Rightarrow> player \<Rightarrow> bool" where
  "skipped_by_position pos p =
     (truthy pos \<and> (case position p of None \<Rightarrow> False | Some s \<Rightarrow> JStr s \<noteq> pos))"

definition waiver_info :: "league \<Rightarrow> player \<Rightarrow> player_info" where
  "waiver_info lg p =
     \<lparr> pi_player_id = playerId p,
       pi_name = (case name p of Some n \<Rightarrow> n | None \<Rightarrow> repr p),
       pi_position = (case position p of Some s \<Rightarrow> s | None \<Rightarrow> ''N/A''),
       pi_team = (case proTeam p of Some t \<Rightarrow> t | None \<Rightarrow> ''N/A''),
       pi_projected_points = weekly_projection lg p,
       pi_bye_week = get_player_bye_week p,
       pi_injury_status = injuryStatus p \<rparr>"

fun waiver_players :: "league \<Rightarrow> json \<Rightarrow> player list \<Rightarrow> player_info list" where
  "waiver_players lg pos [] = []"
| "waiver_players lg pos (p # ps) =
     (if skipped_by_position pos p then waiver_players lg pos ps
      else if weekly_projection lg p > 2 then waiver_info lg p # waiver_players lg pos ps
      else waiver_players lg pos ps)"

text \<open>\<^verbatim>\<open>sorted(..., key=projected_points, reverse=True)\<close> is stable: equal keys keep
  their order, which is an ascending stable sort on the negated key.\<close>

definition sorted_desc :: "player_info list \<Rightarrow> player_info list" where
  "sorted_desc xs = sort_key (\<lambda>x. - pi_projected_points x) xs"

definition round_points :: "player_info \<Rightarrow> player_info" where
  "round_points x = x\<lparr>pi_projected_points := py_round (pi_projected_points x) 1\<rparr>"

definition get_waiver_wire_for_tool :: "league \<Rightarrow> json \<Rightarrow> json \<Rightarrow> exn + tool_result" where
  "get_waiver_wire_for_tool lg position0 sz =
     (if truthy position0 \<and> position0 \<notin> set (map JStr valid_positions)
      then Inr (ErrorResult (InvalidPosition position0))
      else
        let pos = (if position0 = JStr ''DST'' then JStr ''D/ST'' else position0);
            fetch_size = (if truthy pos then 75 else 50)
        in case free_agents lg fetch_size of
             Inl e \<Rightarrow> Inl e
           | Inr fa \<Rightarrow>
               (case py_slice_to sz (sorted_desc (waiver_players lg pos fa)) of
                  Inl e \<Rightarrow> Inl e
                | Inr waiver_data \<Rightarrow>
                    if waiver_data = []
                    then Inr (MessageResult (if truthy pos then Some pos else None))
                    else Inr (WaiverWire (if truthy pos then pos else JStr ''All'')
                                (map round_points waiver_data) (length waiver_data))))"

section \<open>get\_team\_details\_for\_tool\<close>

definition calculate_roster_strength :: "team \<Rightarrow> rat" where
  "calculate_roster_strength t =
     py_round
       (sum_list (map (\<lambda>p. case projected_avg_points p of Some v \<Rightarrow> v | None \<Rightarrow> 0)
                      (team_roster t)))
       2"

text \<open>The projection a roster line shows: the week's projection, or the season average
  when that is 0 and the player has one.\<close>

definition roster_projection :: "league \<Rightarrow> player \<Rightarrow> rat" where
  "roster_projection lg p =
     (let proj_points = weekly_projection lg p
      in if proj_points = 0
         then (case projected_avg_points p of Some v \<Rightarrow> v | None \<Rightarrow> proj_points)
         else proj_points)"

definition roster_info :: "league \<Rightarrow> player \<Rightarrow> roster_entry" where
  "roster_info lg p =
     \<lparr> re_player_id = playerId p,
       re_name = (case name p of Some n \<Rightarrow> n | None \<Rightarrow> ''Unknown''),
       re_position = (case position p of Some s \<Rightarrow> s | None \<Rightarrow> ''N/A''),
       re_lineup_slot = (case lineupSlot p of Some s \<Rightarrow> s | None \<Rightarrow> ''BE''),
       re_projected_points = py_round (roster_projection lg p) 1,
       re_bye_week = get_player_bye_week p,
       re_injury_status =
         (case injuryStatus p of Some s \<Rightarrow> (if s \<noteq> [] then Some s else None) | None \<Rightarrow> None) \<rparr>"

definition lineup_slot_order :: "string list" where
  "lineup_slot_order = [''QB'', ''RB'', ''WR'', ''TE'', ''RB/WR/TE'', ''K'', ''D/ST'']"

text \<open>\<^verbatim>\<open>lineup_slot_order.index(slot) if slot in lineup_slot_order else 999\<close>.\<close>

fun index_of :: "string \<Rightarrow> string list \<Rightarrow> nat \<Rightarrow> nat" where
  "index_of s [] i = 999"
| "index_of s (x # xs) i = (if x = s then i else index_of s xs (Suc i))"

definition get_structured_roster_summary_with_ids ::
  "league \<Rightarrow> team \<Rightarrow> roster_entry list \<times> roster_entry list" where
  "get_structured_roster_summary_with_ids lg t =
     (let infos = map (roster_info lg) (team_roster t);
          starters = filter (\<lambda>x. re_lineup_slot x \<notin> {''BE'', ''IR''}) infos;
          bench = filter (\<lambda>x. re_lineup_slot x = ''BE'') infos
      in (sort_key (\<lambda>x. index_of (re_lineup_slot x) lineup_slot_order 0) starters,
          sort_key (\<lambda>x. - re_projected_points x) bench))"

text \<open>The first team whose \<open>team_id\<close> equals the argument.\<close>

fun find_team :: "team list \<Rightarrow> json \<Rightarrow> team option" where
  "find_team [] tid = None"
| "find_team (t # ts) tid =
     (case team_id t of
        Some i \<Rightarrow> (if py_eq_int i tid then Some t else find_team ts tid)
      | None \<Rightarrow> find_team ts tid)"

definition get_team_details_for_tool :: "league \<Rightarrow> json \<Rightarrow> exn + tool_result" where
  "get_team_details_for_tool lg tid =
     (case find_team (teams lg) tid of
        None \<Rightarrow> Inr (ErrorResult (TeamNotFound tid))
      | Some target_team \<Rightarrow>
          (let roster_summary = get_structured_roster_summary_with_ids lg target_team
           in Inr (TeamDetails
                \<lparr> td_team_name = team_name target_team,
                  td_record = (wins target_team, losses target_team),
                  td_points_for = points_for target_team,
                  td_points_against =
                    (case points_against target_team of Some v \<Rightarrow> v | None \<Rightarrow> 0),
                  td_roster_strength = calculate_roster_strength target_team,
                  td_starters = fst roster_summary,
                  td_bench = snd roster_summary \<rparr>)))"

section \<open>get\_player\_stats\_for\_tool\<close>

text \<open>
  The weekly table: week 0 is skipped, the values are rounded to one decimal, the weeks
  are sorted. The per-position breakdown of a week is not part of the model.
\<close>

definition weekly_line :: "stat_line \<Rightarrow> weekly_data" where
  "weekly_line st =
     \<lparr> wd_projected_points =
         py_round (case projected_points st of Some v \<Rightarrow> v | None \<Rightarrow> 0) 1,
       wd_actual_points = py_round (case points st of Some v \<Rightarrow> v | None \<Rightarrow> 0) 1,
       wd_completed = ((case points st of Some v \<Rightarrow> v | None \<Rightarrow> 0) > 0) \<rparr>"

definition weekly_stats :: "player \<Rightarrow> (int \<times> weekly_data) list" where
  "weekly_stats p =
     sort_key fst
       (map (\<lambda>(week, st). (week, weekly_line st))
            (filter (\<lambda>(week, st). week \<noteq> 0) (case stats p of Some st \<Rightarrow> st | None \<Rightarrow> [])))"

text \<open>\<^verbatim>\<open>hasattr(player, 'playerId') and player.playerId == player_id\<close>.\<close>

definition has_player_id :: "json \<Rightarrow> player \<Rightarrow> bool" where
  "has_player_id pid p = (case playerId p of Some i \<Rightarrow> py_eq_int i pid | None \<Rightarrow> False)"

text \<open>The found branch reads \<^verbatim>\<open>player.name\<close> without a guard.\<close>

definition player_stats_of :: "team \<Rightarrow> player \<Rightarrow> exn + tool_result" where
  "player_stats_of t p =
     (case name p of
        None \<Rightarrow> Inl AttributeError
      | Some n \<Rightarrow>
          Inr (PlayerStats
            \<lparr> ps_player_id = playerId p,
              ps_name = n,
              ps_position = (case position p of Some s \<Rightarrow> s | None \<Rightarrow> ''N/A''),
              ps_team = (case proTeam p of Some s \<Rightarrow> s | None \<Rightarrow> ''N/A''),
              ps_fantasy_team = team_name t,
              ps_projected_avg_points =
                py_round (case projected_avg_points p of Some v \<Rightarrow> v | None \<Rightarrow> 0) 1,
              ps_bye_week = get_player_bye_week p,
              ps_injury_status = injuryStatus p,
              ps_weekly_stats = weekly_stats p \<rparr>))"

fun search_roster :: "json \<Rightarrow> player list \<Rightarrow> player option" where
  "search_roster pid [] = None"
| "search_roster pid (p # ps) = (if has_player_id pid p then Some p else search_roster pid ps)"

fun search_teams :: "json \<Rightarrow> team list \<Rightarrow> (team \<times> player) option" where
  "search_teams pid [] = None"
| "search_teams pid (t # ts) =
     (case search_roster pid (team_roster t) of
        Some p \<Rightarrow> Some (t, p)
      | None \<Rightarrow> search_teams pid ts)"

definition get_player_stats_for_tool :: "league \<Rightarrow> json \<Rightarrow> exn + tool_result" where
  "get_player_stats_for_tool lg pid =
     (case search_teams pid (teams lg) of
        Some (t, p) \<Rightarrow> player_stats_of t p
      | None \<Rightarrow> Inr (ErrorResult (PlayerNotFound pid)))"

section \<open>The model host's protocol (main.py)\<close>

text \<open>
  A response carries an ordered output of duck-typed items. An item has a type and,
  depending on it, a name, raw arguments and a call id (a function call) or a content
  list (a message); \<open>content\<close> is \<open>None\<close> when the attribute is absent or is not a list.
  Every request of a run carries the same model, instructions and tool declarations,
  which the model omits; console output is not modelled.
\<close>

record content_item =
  content_type :: "string option"
  content_text :: "string option"

record item =
  item_type :: "string option"
  item_name :: "string option"
  arguments :: "string option"
  call_id :: "string option"
  content :: "content_item list option"

record response =
  response_id :: string
  output_items :: "item list"
  output_text :: "string option"

record function_call_output =
  fco_call_id :: "string option"
  fco_output :: tool_result

datatype request_input = Prompt string | FunctionOutputs "function_call_output list"

record request =
  previous_response_id :: "string option"
  request_input :: request_input

text \<open>The host is a state machine: one \<^verbatim>\<open>responses.create\<close> call answers or raises and
  moves the host's state on. The world adds the delays the retry wrapper has slept.\<close>

type_synonym 'h host = "'h \<Rightarrow> request \<Rightarrow> (exn + response) \<times> 'h"

record 'h world =
  host_state :: 'h
  slept :: "rat list"

section \<open>The retry wrapper\<close>

text \<open>
  Modelled from the spec: the retry decorator of \<^verbatim>\<open>responses_with_backoff\<close>
  (\<^verbatim>\<open>retry\<close>, \<^verbatim>\<open>stop_after_attempt\<close> and \<^verbatim>\<open>wait_random_exponential\<close> come from a
  package that is not under src/). The source configures it with
  \<^verbatim>\<open>wait_random_exponential(min=1, max=60)\<close> and \<^verbatim>\<open>stop_after_attempt(6)\<close>. The policy:
  an attempt that raises is retried, whatever the exception, until attempt 6 has failed;
  then the last exception goes to the caller. Before each retry the wrapper sleeps a
  random delay between the floor 1 and an exponentially growing bound capped at the
  ceiling 60. \<open>rnd\<close> is the random source: the n-th draw of a run, in the unit interval.
\<close>

definition max_attempts :: nat where
  "max_attempts = 6"

definition wait_floor :: rat where
  "wait_floor = 1"

definition wait_ceiling :: rat where
  "wait_ceiling = 60"

definition backoff_bound :: "nat \<Rightarrow> rat" where
  "backoff_bound attempt = max wait_floor (min (2 ^ (attempt - 1)) wait_ceiling)"

definition wait_random_exponential :: "rat \<Rightarrow> nat \<Rightarrow> rat" where
  "wait_random_exponential u attempt = wait_floor + u * (backoff_bound attempt - wait_floor)"

text \<open>
  Modelled from the spec: the retry loop that the decorator puts around
  \<^verbatim>\<open>openai_client.responses.create\<close> (the decorator's code is not under src/). Attempts
  are counted from 1; one that raises is followed by a sleep and the next attempt unless
  its number has reached the maximum, in which case its exception is raised. The result
  also tells the number of the attempt that ended the call.
\<close>

function retry_call ::
  "(nat \<Rightarrow> rat) \<Rightarrow> 'h host \<Rightarrow> request \<Rightarrow> nat \<Rightarrow> 'h world \<Rightarrow> (exn + response) \<times> 'h world \<times> nat"
where
  "retry_call rnd create req attempt w =
     (case create (host_state w) req of
        (Inr r, h) \<Rightarrow> (Inr r, w\<lparr>host_state := h\<rparr>, attempt)
      | (Inl e, h) \<Rightarrow>
          if max_attempts \<le> attempt then (Inl e, w\<lparr>host_state := h\<rparr>, attempt)
          else retry_call rnd create req (Suc attempt)
                 (w\<lparr>host_state := h,
                    slept := slept w @ [wait_random_exponential (rnd (length (slept w))) attempt]\<rparr>))"
  by pat_completeness auto
termination
  by (relation "measure (\<lambda>(rnd, create, req, attempt, w). max_attempts - attempt)") auto

declare retry_call.simps [simp del]

definition responses_with_backoff ::
  "(nat \<Rightarrow> rat) \<Rightarrow> 'h host \<Rightarrow> request \<Rightarrow> 'h world \<Rightarrow> (exn + response) \<times> 'h world" where
  "responses_with_backoff rnd create req w =
     (case retry_call rnd create req 1 w of (res, w', attempt) \<Rightarrow> (res, w'))"

section \<open>Dispatching tool calls\<close>

text \<open>\<^verbatim>\<open>json.loads\<close> is a parameter: \<open>loads raw\<close> is \<open>None\<close> when it raises.\<close>

type_synonym loads = "string \<Rightarrow> json option"

definition parse_arguments :: "loads \<Rightarrow> item \<Rightarrow> json" where
  "parse_arguments loads tool_call =
     (case arguments tool_call of
        None \<Rightarrow> JObj []
      | Some raw \<Rightarrow> (case loads raw of Some v \<Rightarrow> v | None \<Rightarrow> JObj []))"

text \<open>The \<^verbatim>\<open>if\<close>/\<^verbatim>\<open>elif\<close> chain over the tool name; \<open>None\<close> is \<^verbatim>\<open>result = None\<close>.\<close>

definition execute_tool :: "league \<Rightarrow> string \<Rightarrow> json \<Rightarrow> exn + tool_result option" where
  "execute_tool lg tool_name tool_args =
     (if tool_name = ''get_waiver_wire'' then
        (case args_get tool_args ''position'' JNull of
           Inl e \<Rightarrow> Inl e
         | Inr pos \<Rightarrow>
             (case args_get tool_args ''size'' (JInt 3) of
                Inl e \<Rightarrow> Inl e
              | Inr sz \<Rightarrow> map_sum id Some (get_waiver_wire_for_tool lg pos sz)))
      else if tool_name = ''get_team_details'' then
        (case args_get tool_args ''team_id'' JNull of
           Inl e \<Rightarrow> Inl e
         | Inr tid \<Rightarrow> map_sum id Some (get_team_details_for_tool lg tid))
      else if tool_name = ''get_player_stats'' then
        (case args_get tool_args ''player_id'' JNull of
           Inl e \<Rightarrow> Inl e
         | Inr pid \<Rightarrow> map_sum id Some (get_player_stats_for_tool lg pid))
      else Inr None)"

text \<open>The body of the loop over the collected calls: the outputs it appends, none or one.\<close>

definition dispatch_tool_call :: "loads \<Rightarrow> league \<Rightarrow> item \<Rightarrow> exn + function_call_output list" where
  "dispatch_tool_call loads lg tool_call =
     (let tool_name = item_name tool_call;
          tool_args = parse_arguments loads tool_call;
          tool_call_id = call_id tool_call
      in case tool_name of
           None \<Rightarrow> Inr []
         | Some n \<Rightarrow>
             if n = [] then Inr []
             else (case execute_tool lg n tool_args of
                     Inl e \<Rightarrow> Inl e
                   | Inr None \<Rightarrow> Inr []
                   | Inr (Some result) \<Rightarrow>
                       Inr [\<lparr>fco_call_id = tool_call_id, fco_output = result\<rparr>]))"

fun execute_function_calls ::
  "loads \<Rightarrow> league \<Rightarrow> item list \<Rightarrow> function_call_output list \<Rightarrow> exn + function_call_output list"
where
  "execute_function_calls loads lg [] function_call_outputs = Inr function_call_outputs"
| "execute_function_calls loads lg (tool_call # rest) function_call_outputs =
     (case dispatch_tool_call loads lg tool_call of
        Inl e \<Rightarrow> Inl e
      | Inr outs \<Rightarrow> execute_function_calls loads lg rest (function_call_outputs @ outs))"

section \<open>The conversation loop\<close>

fun function_calls_to_execute :: "item list \<Rightarrow> item list" where
  "function_calls_to_execute [] = []"
| "function_calls_to_execute (it # its) =
     (if item_type it = Some ''web_search_call'' then function_calls_to_execute its
      else if item_type it = Some ''function_call'' then it # function_calls_to_execute its
      else function_calls_to_execute its)"

definition continuation :: "response \<Rightarrow> function_call_output list \<Rightarrow> request" where
  "continuation r function_call_outputs =
     \<lparr> previous_response_id = Some (response_id r),
       request_input = FunctionOutputs function_call_outputs \<rparr>"

text \<open>\<^verbatim>\<open>while True\<close>: the loop may not return, so its value is an option. It ends with the
  response that asks for no function call, or with the exception that left it.\<close>

partial_function (option) conversation_loop ::
  "loads \<Rightarrow> (nat \<Rightarrow> rat) \<Rightarrow> 'h host \<Rightarrow> league \<Rightarrow> response \<Rightarrow> 'h world
     \<Rightarrow> ((exn + response) \<times> 'h world) option"
where
  "conversation_loop loads rnd create lg r w =
     (case function_calls_to_execute (output_items r) of
        [] \<Rightarrow> Some (Inr r, w)
      | tool_call # rest \<Rightarrow>
          (case execute_function_calls loads lg (tool_call # rest) [] of
             Inl e \<Rightarrow> Some (Inl e, w)
           | Inr function_call_outputs \<Rightarrow>
               (case responses_with_backoff rnd create (continuation r function_call_outputs) w of
                  (Inl e, w') \<Rightarrow> Some (Inl e, w')
                | (Inr r', w') \<Rightarrow> conversation_loop loads rnd create lg r' w')))"

text \<open>The text of the final response.\<close>

definition content_fragment :: "content_item \<Rightarrow> string" where
  "content_fragment c =
     (if content_type c = Some ''output_text''
      then (case content_text c of Some t \<Rightarrow> t | None \<Rightarrow> [])
      else [])"

definition message_text :: "item \<Rightarrow> string" where
  "message_text it =
     (if item_type it = Some ''message''
      then (case content it of Some cs \<Rightarrow> concat (map content_fragment cs) | None \<Rightarrow> [])
      else [])"

definition extract_text :: "response \<Rightarrow> string" where
  "extract_text r =
     (if (case output_text r of Some t \<Rightarrow> t \<noteq> [] | None \<Rightarrow> False)
      then (case output_text r of Some t \<Rightarrow> t | None \<Rightarrow> [])
      else
        let final_text = concat (map message_text (output_items r))
        in if final_text \<noteq> [] then final_text else ''Analysis complete.'')"

definition analyze_with_openai ::
  "loads \<Rightarrow> (nat \<Rightarrow> rat) \<Rightarrow> 'h host \<Rightarrow> league \<Rightarrow> string \<Rightarrow> 'h world
     \<Rightarrow> ((exn + string) \<times> 'h world) option" where
  "analyze_with_openai loads rnd create lg prompt w =
     (case responses_with_backoff rnd create
             \<lparr>previous_response_id = None, request_input = Prompt prompt\<rparr> w of
        (Inl e, w') \<Rightarrow> Some (Inl e, w')
      | (Inr r, w') \<Rightarrow>
          map_option (\<lambda>(res, w''). (map_sum id extract_text res, w''))
            (conversation_loop loads rnd create lg r w'))"

section \<open>Notions the properties are stated with\<close>

text \<open>The names the \<^verbatim>\<open>if\<close>/\<^verbatim>\<open>elif\<close> chain of the driver knows.\<close>

definition local_tools :: "string list" where
  "local_tools = [''get_waiver_wire'', ''get_team_details'', ''get_player_stats'']"

definition has_local_handler :: "item \<Rightarrow> bool" where
  "has_local_handler tool_call =
     (case item_name tool_call of Some n \<Rightarrow> n \<in> set local_tools | None \<Rightarrow> False)"

text \<open>The attempts of one wrapped call, as the host sees them: its state after \<open>k\<close>
  attempts, the outcome of attempt \<open>k\<close> (counted from 1), and the delays slept after
  the first \<open>m\<close> failed attempts when \<open>n0\<close> random draws were made before.\<close>

primrec host_after :: "'h host \<Rightarrow> request \<Rightarrow> 'h \<Rightarrow> nat \<Rightarrow> 'h" where
  "host_after create req h 0 = h"
| "host_after create req h (Suc k) = snd (create (host_after create req h k) req)"

definition attempt_result :: "'h host \<Rightarrow> request \<Rightarrow> 'h \<Rightarrow> nat \<Rightarrow> exn + response" where
  "attempt_result create req h k = fst (create (host_after create req h (k - 1)) req)"

definition delays_after :: "(nat \<Rightarrow> rat) \<Rightarrow> nat \<Rightarrow> nat \<Rightarrow> rat list" where
  "delays_after rnd n0 m = map (\<lambda>i. wait_random_exponential (rnd (n0 + i)) (Suc i)) [0..<m]"

text \<open>What one call contributes to the outputs of its turn when its dispatch returns.\<close>

definition outputs_of :: "loads \<Rightarrow> league \<Rightarrow> item \<Rightarrow> function_call_output list" where
  "outputs_of loads lg tool_call =
     (case dispatch_tool_call loads lg tool_call of Inr outs \<Rightarrow> outs | Inl e \<Rightarrow> [])"

text \<open>The \<open>player_id\<close> of a result entry as a later \<^verbatim>\<open>get_player_stats\<close> call
  carries it: a JSON number, or null for an entry without one.\<close>

definition player_id_json :: "int option \<Rightarrow> json" where
  "player_id_json i = (case i of Some k \<Rightarrow> JInt k | None \<Rightarrow> JNull)"

text \<open>The spec's wording of the fallback text: the text fragments of all message-type
  items of the output, concatenated in order.\<close>

definition message_fragments :: "response \<Rightarrow> string" where
  "message_fragments r =
     concat (map (\<lambda>c. case content_text c of Some t \<Rightarrow> t | None \<Rightarrow> [])
       (filter (\<lambda>c. content_type c = Some ''output_text'')
         (concat (map (\<lambda>it. case content it of Some cs \<Rightarrow> cs | None \<Rightarrow> [])
           (filter (\<lambda>it. item_type it = Some ''message'') (output_items r))))))"

section \<open>Example data\<close>

text \<open>A small league on which the properties below are evaluated.\<close>

definition example_player :: "int \<Rightarrow> string \<Rightarrow> string \<Rightarrow> string \<Rightarrow> (int \<times> stat_line) list \<Rightarrow> player" where
  "example_player i n pos t st =
     \<lparr> playerId = Some i, name = Some n, repr = n, position = Some pos, proTeam = Some t,
       stats = Some st, injuryStatus = None, projected_avg_points = None, lineupSlot = None \<rparr>"

definition example_free_agents :: "player list" where
  "example_free_agents =
     [ example_player 11 ''Ann'' ''RB'' ''DAL'' [(3, \<lparr>projected_points = Some (21 / 4), points = None\<rparr>)],
       example_player 12 ''Bo'' ''WR'' ''KC'' [(3, \<lparr>projected_points = Some (19 / 2), points = None\<rparr>)],
       example_player 13 ''Cy'' ''QB'' ''SF'' [(2, \<lparr>projected_points = Some 30, points = None\<rparr>)],
       example_player 14 ''Di'' ''TE'' ''GB'' [(3, \<lparr>projected_points = Some 3, points = None\<rparr>)] ]"

definition example_team :: team where
  "example_team =
     \<lparr> team_id = Some 1, team_name = ''Home'', wins = 2, losses = 0, points_for = 250,
       points_against = Some 200,
       roster = Some [example_player 21 ''Ed'' ''QB'' ''BUF'' [(3, \<lparr>projected_points = Some 18, points = None\<rparr>)]] \<rparr>"

definition example_league :: league where
  "example_league =
     \<lparr> current_week = 3, teams = [example_team], free_agents = (\<lambda>n. Inr example_free_agents) \<rparr>"

definition example_entry :: "int \<Rightarrow> string \<Rightarrow> string \<Rightarrow> string \<Rightarrow> rat \<Rightarrow> int \<Rightarrow> player_info" where
  "example_entry i n pos t pts bye =
     \<lparr> pi_player_id = Some i, pi_name = n, pi_position = pos, pi_team = t,
       pi_projected_points = pts, pi_bye_week = Some bye, pi_injury_status = None \<rparr>"

text \<open>A parser that reads two texts and rejects every other, items of the three kinds,
  and a host that answers from a script, counting the calls it has received.\<close>

definition example_loads :: loads where
  "example_loads raw =
     (if raw = ''{}'' then Some (JObj [])
      else if raw = ''[]'' then Some (JArr [])
      else None)"

definition example_call :: "string \<Rightarrow> string \<Rightarrow> string \<Rightarrow> item" where
  "example_call cid n raw =
     \<lparr> item_type = Some ''function_call'', item_name = Some n, arguments = Some raw,
       call_id = Some cid, content = None \<rparr>"

definition example_search :: item where
  "example_search =
     \<lparr> item_type = Some ''web_search_call'', item_name = None, arguments = None,
       call_id = None, content = None \<rparr>"

definition example_message :: "string \<Rightarrow> item" where
  "example_message t =
     \<lparr> item_type = Some ''message'', item_name = None, arguments = None, call_id = None,
       content = Some [\<lparr>content_type = Some ''output_text'', content_text = Some t\<rparr>] \<rparr>"

definition example_response :: "string \<Rightarrow> item list \<Rightarrow> response" where
  "example_response i its = \<lparr> response_id = i, output_items = its, output_text = None \<rparr>"

definition scripted_host :: "(exn + response) list \<Rightarrow> nat host" where
  "scripted_host script h req =
     (if h < length script then script ! h else Inl (HostError ''script ended''), Suc h)"

definition example_world :: "nat world" where
  "example_world = \<lparr> host_state = 0, slept = [] \<rparr>"

definition example_rnd :: "nat \<Rightarrow> rat" where
  "example_rnd n = 1 / 2"

definition failing_league :: league where
  "failing_league =
     \<lparr> current_week = 3, teams = [example_team],
       free_agents = (\<lambda>n. Inl (ProviderError ''timeout'')) \<rparr>"

text \<open>Four function calls with empty arguments, the last to a tool that does not exist.\<close>

definition call_waiver :: item where
  "call_waiver = example_call ''call_a'' ''get_waiver_wire'' ''{}''"

definition call_team :: item where
  "call_team = example_call ''call_b'' ''get_team_details'' ''{}''"

definition call_player :: item where
  "call_player = example_call ''call_c'' ''get_player_stats'' ''{}''"

definition call_unknown :: item where
  "call_unknown = example_call ''call_u'' ''does_not_exist'' ''{}''"

text \<open>A host that fails five times, with exceptions of several classes, before it
  answers.\<close>

definition flaky_script :: "(exn + response) list" where
  "flaky_script =
     [Inl (HostError ''rate limit''), Inl TypeError, Inl (HostError ''overloaded''),
      Inl AttributeError, Inl (ProviderError ''reset''),
      Inr (example_response ''resp_1'' [example_message ''Start Bo.''])]"

definition example_request :: request where
  "example_request = \<lparr>previous_response_id = None, request_input = Prompt ''Analyze my team''\<rparr>"

section \<open>Properties\<close>

subsection \<open>Evaluation and auxiliary facts\<close>

lemma floor_rat_numeral: "\<lfloor>numeral a / numeral b :: rat\<rfloor> = numeral a div numeral b"
  using floor_divide_of_int_eq[of "numeral a" "numeral b", where ?'a = rat] by simp

lemmas example_simps =
  example_league_def example_free_agents_def example_player_def example_team_def example_entry_def
  get_waiver_wire_for_tool_def valid_positions_def skipped_by_position_def waiver_info_def
  weekly_projection_def sorted_desc_def round_points_def py_round_def round_half_even_def
  get_player_bye_week_def BYE_WEEKS_def

lemmas example_eval = example_simps Let_def floor_rat_numeral

lemma function_calls_filter:
  "function_calls_to_execute its = filter (\<lambda>it. item_type it = Some ''function_call'') its"
  by (induction its) auto

lemma round_half_even_mono: "x \<le> y \<Longrightarrow> round_half_even x \<le> round_half_even y"
proof -
  assume xy: "x \<le> y"
  have fl: "\<lfloor>x\<rfloor> \<le> \<lfloor>y\<rfloor>" using xy by (rule floor_mono)
  have lo: "\<And>z. \<lfloor>z\<rfloor> \<le> round_half_even z" by (simp add: round_half_even_def Let_def)
  have hi: "\<And>z. round_half_even z \<le> \<lfloor>z\<rfloor> + 1" by (simp add: round_half_even_def Let_def)
  show ?thesis
  proof (cases "\<lfloor>x\<rfloor> = \<lfloor>y\<rfloor>")
    case True
    then have "x - of_int \<lfloor>x\<rfloor> \<le> y - of_int \<lfloor>y\<rfloor>" using xy by simp
    then show ?thesis using True by (auto simp: round_half_even_def Let_def)
  next
    case False
    then have "\<lfloor>x\<rfloor> + 1 \<le> \<lfloor>y\<rfloor>" using fl by simp
    then show ?thesis using lo[of y] hi[of x] by linarith
  qed
qed

lemma py_round_mono: "x \<le> y \<Longrightarrow> py_round x n \<le> py_round y n"
  unfolding py_round_def
  by (intro divide_right_mono) (auto intro!: round_half_even_mono mult_right_mono)

lemma py_round_decimal: "\<exists>k::int. py_round x 1 = of_int k / 10"
  unfolding py_round_def by auto

lemma waiver_players_set:
  "x \<in> set (waiver_players lg pos fa) \<Longrightarrow>
     \<exists>p \<in> set fa. x = waiver_info lg p \<and> 2 < weekly_projection lg p \<and> \<not> skipped_by_position pos p"
  by (induction fa) (auto split: if_splits)

lemma weekly_projection_gt:
  "0 < weekly_projection lg p \<Longrightarrow>
     \<exists>st line. stats p = Some st \<and> map_of st (current_week lg) = Some line
        \<and> projected_points line = Some (weekly_projection lg p)"
  by (auto simp: weekly_projection_def split: option.splits)

lemma sorted_desc_set: "set (sorted_desc xs) = set xs"
  by (simp add: sorted_desc_def)

lemma sorted_desc_sorted:
  "sorted_wrt (\<lambda>a b. pi_projected_points b \<le> pi_projected_points a) (sorted_desc xs)"
proof -
  have "sorted (map (\<lambda>x. - pi_projected_points x) (sorted_desc xs))"
    unfolding sorted_desc_def by (rule sorted_sort_key)
  then show ?thesis by (simp add: sorted_wrt_map)
qed

lemma py_slice_to_take: "py_slice_to sz xs = Inr ys \<Longrightarrow> \<exists>n. ys = take n xs"
  by (cases sz) (auto split: if_splits intro: exI[of _ "length xs"])

lemma py_slice_to_length:
  "py_slice_to (JInt n) xs = Inr ys \<Longrightarrow> 0 \<le> n \<Longrightarrow> length ys \<le> nat n"
  by auto

subsection \<open>The waiver wire list\<close>

text \<open>
  C9, as stated, at a negative size: \<^verbatim>\<open>[:size]\<close> with \<open>size = -1\<close> drops the last of
  the three eligible free agents and returns two entries, more than \<open>size\<close>.
\<close>

theorem waiver_wire_size_counterexample:
  "get_waiver_wire_for_tool example_league JNull (JInt (- 1)) =
     Inr (WaiverWire (JStr ''All'')
       [example_entry 12 ''Bo'' ''WR'' ''KC'' (19 / 2) 10,
        example_entry 11 ''Ann'' ''RB'' ''DAL'' (26 / 5) 10] 2)
   \<and> \<not> int (length [example_entry 12 ''Bo'' ''WR'' ''KC'' (19 / 2) 10,
                      example_entry 11 ''Ann'' ''RB'' ''DAL'' (26 / 5) 10]) \<le> - 1"
  by (simp add: example_eval)

text \<open>
  C9, amended. A successful \<^verbatim>\<open>get_waiver_wire\<close> result lists only free agents whose
  projection for the current week exists and exceeds 2.0, in non-increasing order of
  projected points, each projection rounded to one decimal, and, when \<open>size\<close> is a
  non-negative integer, at most \<open>size\<close> of them.
\<close>

theorem waiver_wire_result:
  assumes "get_waiver_wire_for_tool lg position0 sz = Inr (WaiverWire shown available_players cnt)"
  shows "(\<forall>x \<in> set available_players.
            \<exists>fa p st line v.
              free_agents lg (if truthy position0 then 75 else 50) = Inr fa \<and> p \<in> set fa
              \<and> stats p = Some st \<and> map_of st (current_week lg) = Some line
              \<and> projected_points line = Some v \<and> 2 < v
              \<and> x = (waiver_info lg p)\<lparr>pi_projected_points := py_round v 1\<rparr>)
         \<and> sorted_wrt (\<lambda>a b. pi_projected_points b \<le> pi_projected_points a) available_players
         \<and> (\<forall>n. sz = JInt n \<and> 0 \<le> n \<longrightarrow> length available_players \<le> nat n)
         \<and> (\<forall>x \<in> set available_players. \<exists>k::int. pi_projected_points x = of_int k / 10)
         \<and> cnt = length available_players \<and> available_players \<noteq> []"
proof -
  define pos where "pos = (if position0 = JStr ''DST'' then JStr ''D/ST'' else position0)"
  have tp: "truthy pos = truthy position0" by (simp add: pos_def)
  from assms obtain fa waiver_data where
    fa: "free_agents lg (if truthy position0 then 75 else 50) = Inr fa" and
    sl: "py_slice_to sz (sorted_desc (waiver_players lg pos fa)) = Inr waiver_data" and
    ne: "waiver_data \<noteq> []" and
    av: "available_players = map round_points waiver_data" and
    cn: "cnt = length waiver_data"
    unfolding get_waiver_wire_for_tool_def Let_def pos_def[symmetric] tp
    by (auto split: if_splits sum.splits)
  from py_slice_to_take[OF sl] obtain n where
    wd: "waiver_data = take n (sorted_desc (waiver_players lg pos fa))" by blast
  have sub: "set waiver_data \<subseteq> set (waiver_players lg pos fa)"
    unfolding wd using set_take_subset[of n "sorted_desc (waiver_players lg pos fa)"]
    by (simp add: sorted_desc_set)
  have c1: "\<forall>x \<in> set available_players.
            \<exists>fa p st line v.
              free_agents lg (if truthy position0 then 75 else 50) = Inr fa \<and> p \<in> set fa
              \<and> stats p = Some st \<and> map_of st (current_week lg) = Some line
              \<and> projected_points line = Some v \<and> 2 < v
              \<and> x = (waiver_info lg p)\<lparr>pi_projected_points := py_round v 1\<rparr>"
  proof
    fix x assume "x \<in> set available_players"
    then obtain y where y: "y \<in> set waiver_data" and x: "x = round_points y"
      unfolding av by auto
    from y sub have "y \<in> set (waiver_players lg pos fa)" by blast
    from waiver_players_set[OF this] obtain p where
      p: "p \<in> set fa" "y = waiver_info lg p" "2 < weekly_projection lg p" by blast
    then have "0 < weekly_projection lg p" by simp
    from weekly_projection_gt[OF this] obtain st line where
      st: "stats p = Some st" "map_of st (current_week lg) = Some line"
          "projected_points line = Some (weekly_projection lg p)" by blast
    have "x = (waiver_info lg p)\<lparr>pi_projected_points := py_round (weekly_projection lg p) 1\<rparr>"
      unfolding x p(2) by (simp add: round_points_def waiver_info_def)
    with fa p st show "\<exists>fa p st line v.
              free_agents lg (if truthy position0 then 75 else 50) = Inr fa \<and> p \<in> set fa
              \<and> stats p = Some st \<and> map_of st (current_week lg) = Some line
              \<and> projected_points line = Some v \<and> 2 < v
              \<and> x = (waiver_info lg p)\<lparr>pi_projected_points := py_round v 1\<rparr>" by blast
  qed
  have "sorted_wrt (\<lambda>a b. pi_projected_points b \<le> pi_projected_points a) waiver_data"
    unfolding wd by (rule sorted_wrt_take[OF sorted_desc_sorted])
  then have c2: "sorted_wrt (\<lambda>a b. pi_projected_points b \<le> pi_projected_points a) available_players"
    unfolding av sorted_wrt_map
    by (rule sorted_wrt_mono_rel[rotated]) (simp add: round_points_def py_round_mono)
  have c3: "\<forall>n. sz = JInt n \<and> 0 \<le> n \<longrightarrow> length available_players \<le> nat n"
    using sl py_slice_to_length by (auto simp: av)
  have c4: "\<forall>x \<in> set available_players. \<exists>k::int. pi_projected_points x = of_int k / 10"
    unfolding av using py_round_decimal by (auto simp: round_points_def)
  from c1 c2 c3 c4 cn ne show ?thesis by (simp add: av)
qed

theorem waiver_wire_result_witness:
  "get_waiver_wire_for_tool example_league JNull (JInt 2) =
     Inr (WaiverWire (JStr ''All'')
       [example_entry 12 ''Bo'' ''WR'' ''KC'' (19 / 2) 10,
        example_entry 11 ''Ann'' ''RB'' ''DAL'' (26 / 5) 10] 2)
   \<and> sorted_wrt (\<lambda>a b. pi_projected_points b \<le> pi_projected_points a)
       [example_entry 12 ''Bo'' ''WR'' ''KC'' (19 / 2) 10,
        example_entry 11 ''Ann'' ''RB'' ''DAL'' (26 / 5) 10]
   \<and> length [example_entry 12 ''Bo'' ''WR'' ''KC'' (19 / 2) 10,
              example_entry 11 ''Ann'' ''RB'' ''DAL'' (26 / 5) 10] \<le> nat 2"
proof -
  have h: "get_waiver_wire_for_tool example_league JNull (JInt 2) =
     Inr (WaiverWire (JStr ''All'')
       [example_entry 12 ''Bo'' ''WR'' ''KC'' (19 / 2) 10,
        example_entry 11 ''Ann'' ''RB'' ''DAL'' (26 / 5) 10] 2)"
    by (simp add: example_eval)
  from waiver_wire_result[OF h] h show ?thesis by simp
qed

subsection \<open>Looking up a player\<close>

lemma waiver_wire_entries:
  assumes "get_waiver_wire_for_tool lg position0 sz = Inr (WaiverWire shown available_players cnt)"
      and "x \<in> set available_players"
  shows "\<exists>fa. \<exists>p \<in> set fa.
           free_agents lg (if truthy position0 then 75 else 50) = Inr fa
           \<and> 2 < weekly_projection lg p \<and> x = round_points (waiver_info lg p)"
proof -
  define pos where "pos = (if position0 = JStr ''DST'' then JStr ''D/ST'' else position0)"
  have tp: "truthy pos = truthy position0" by (simp add: pos_def)
  from assms(1) obtain fa waiver_data where
    fa: "free_agents lg (if truthy position0 then 75 else 50) = Inr fa" and
    sl: "py_slice_to sz (sorted_desc (waiver_players lg pos fa)) = Inr waiver_data" and
    av: "available_players = map round_points waiver_data"
    unfolding get_waiver_wire_for_tool_def Let_def pos_def[symmetric] tp
    by (auto split: if_splits sum.splits)
  from py_slice_to_take[OF sl] obtain n where
    wd: "waiver_data = take n (sorted_desc (waiver_players lg pos fa))" by blast
  from assms(2) obtain y where y: "y \<in> set waiver_data" and x: "x = round_points y"
    unfolding av by auto
  from y have "y \<in> set (sorted_desc (waiver_players lg pos fa))"
    unfolding wd by (rule in_set_takeD)
  then have "y \<in> set (waiver_players lg pos fa)" by (simp add: sorted_desc_set)
  from waiver_players_set[OF this] x fa show ?thesis by blast
qed

lemma search_roster_None:
  "\<forall>p \<in> set ps. \<not> has_player_id pid p \<Longrightarrow> search_roster pid ps = None"
  by (induction ps) auto

lemma search_teams_None:
  "\<forall>t \<in> set ts. \<forall>p \<in> set (team_roster t). \<not> has_player_id pid p \<Longrightarrow> search_teams pid ts = None"
  by (induction ts) (auto simp: search_roster_None)

lemma player_not_on_roster:
  "\<forall>t \<in> set (teams lg). \<forall>p \<in> set (team_roster t). \<not> has_player_id pid p \<Longrightarrow>
     get_player_stats_for_tool lg pid = Inr (ErrorResult (PlayerNotFound pid))"
  by (simp add: get_player_stats_for_tool_def search_teams_None)

lemma example_waiver:
  "get_waiver_wire_for_tool example_league JNull (JInt 2) =
     Inr (WaiverWire (JStr ''All'')
       [example_entry 12 ''Bo'' ''WR'' ''KC'' (19 / 2) 10,
        example_entry 11 ''Ann'' ''RB'' ''DAL'' (26 / 5) 10] 2)"
  by (simp add: example_eval)

text \<open>
  C10. \<^verbatim>\<open>get_player_stats_for_tool\<close> searches the team rosters only: a \<open>player_id\<close> that
  no rostered player carries gives the ``not found'' error payload. In a league whose free
  agents are on no roster, this is the answer for every \<open>player_id\<close> that a
  \<^verbatim>\<open>get_waiver_wire\<close> result lists.
\<close>

theorem player_stats_not_found:
  "((\<forall>t \<in> set (teams lg). \<forall>p \<in> set (team_roster t). \<not> has_player_id pid p) \<longrightarrow>
      get_player_stats_for_tool lg pid = Inr (ErrorResult (PlayerNotFound pid)))
   \<and> ((\<forall>n fa. free_agents lg n = Inr fa \<longrightarrow>
          (\<forall>a \<in> set fa. \<forall>t \<in> set (teams lg). \<forall>p \<in> set (team_roster t).
              playerId p = None \<or> playerId p \<noteq> playerId a))
        \<and> get_waiver_wire_for_tool lg position0 sz = Inr (WaiverWire shown available_players cnt)
       \<longrightarrow> (\<forall>x \<in> set available_players.
              get_player_stats_for_tool lg (player_id_json (pi_player_id x)) =
                Inr (ErrorResult (PlayerNotFound (player_id_json (pi_player_id x))))))"
proof (intro conjI impI ballI)
  assume "\<forall>t \<in> set (teams lg). \<forall>p \<in> set (team_roster t). \<not> has_player_id pid p"
  then show "get_player_stats_for_tool lg pid = Inr (ErrorResult (PlayerNotFound pid))"
    by (rule player_not_on_roster)
next
  fix x
  assume h: "(\<forall>n fa. free_agents lg n = Inr fa \<longrightarrow>
          (\<forall>a \<in> set fa. \<forall>t \<in> set (teams lg). \<forall>p \<in> set (team_roster t).
              playerId p = None \<or> playerId p \<noteq> playerId a))
        \<and> get_waiver_wire_for_tool lg position0 sz = Inr (WaiverWire shown available_players cnt)"
    and x: "x \<in> set available_players"
  from waiver_wire_entries[OF conjunct2[OF h] x] obtain fa a where
    fa: "free_agents lg (if truthy position0 then 75 else 50) = Inr fa" and
    a: "a \<in> set fa" "x = round_points (waiver_info lg a)" by blast
  have id: "pi_player_id x = playerId a"
    by (simp add: a(2) round_points_def waiver_info_def)
  have "\<forall>t \<in> set (teams lg). \<forall>p \<in> set (team_roster t).
          \<not> has_player_id (player_id_json (pi_player_id x)) p"
  proof (intro ballI)
    fix t p assume "t \<in> set (teams lg)" "p \<in> set (team_roster t)"
    with h fa a(1) have "playerId p = None \<or> playerId p \<noteq> playerId a" by blast
    then show "\<not> has_player_id (player_id_json (pi_player_id x)) p"
      unfolding id by (auto simp: has_player_id_def player_id_json_def split: option.splits)
  qed
  then show "get_player_stats_for_tool lg (player_id_json (pi_player_id x)) =
                Inr (ErrorResult (PlayerNotFound (player_id_json (pi_player_id x))))"
    by (rule player_not_on_roster)
qed

theorem player_stats_not_found_witness:
  "get_player_stats_for_tool example_league (JInt 12) = Inr (ErrorResult (PlayerNotFound (JInt 12)))
   \<and> get_player_stats_for_tool example_league (JInt 11) = Inr (ErrorResult (PlayerNotFound (JInt 11)))"
proof -
  have h1: "\<forall>t \<in> set (teams example_league). \<forall>p \<in> set (team_roster t). \<not> has_player_id (JInt 12) p"
    by (simp add: example_league_def example_team_def team_roster_def example_player_def
          has_player_id_def)
  have h2: "\<forall>n fa. free_agents example_league n = Inr fa \<longrightarrow>
          (\<forall>a \<in> set fa. \<forall>t \<in> set (teams example_league). \<forall>p \<in> set (team_roster t).
              playerId p = None \<or> playerId p \<noteq> playerId a)"
    by (simp add: example_league_def example_team_def team_roster_def example_player_def
          example_free_agents_def)
  note t = player_stats_not_found[of example_league "JInt 12" JNull "JInt 2" "JStr ''All''"
       "[example_entry 12 ''Bo'' ''WR'' ''KC'' (19 / 2) 10,
         example_entry 11 ''Ann'' ''RB'' ''DAL'' (26 / 5) 10]" 2]
  from t h1 have a: "get_player_stats_for_tool example_league (JInt 12) = Inr (ErrorResult (PlayerNotFound (JInt 12)))"
    by blast
  from t h2 example_waiver have "\<forall>x \<in> set [example_entry 12 ''Bo'' ''WR'' ''KC'' (19 / 2) 10,
         example_entry 11 ''Ann'' ''RB'' ''DAL'' (26 / 5) 10].
              get_player_stats_for_tool example_league (player_id_json (pi_player_id x)) =
                Inr (ErrorResult (PlayerNotFound (player_id_json (pi_player_id x))))"
    by blast
  then have "get_player_stats_for_tool example_league (JInt 11) = Inr (ErrorResult (PlayerNotFound (JInt 11)))"
    by (simp add: example_entry_def player_id_json_def)
  with a show ?thesis by simp
qed

subsection \<open>Dispatch of one tool call\<close>

lemma execute_tool_unknown:
  "n \<notin> set local_tools \<Longrightarrow> execute_tool lg n tool_args = Inr None"
  by (simp add: execute_tool_def local_tools_def)

lemma dispatch_no_handler:
  "\<not> has_local_handler tool_call \<Longrightarrow> dispatch_tool_call loads lg tool_call = Inr []"
  by (auto simp: dispatch_tool_call_def has_local_handler_def Let_def execute_tool_unknown
           split: option.splits)

text \<open>
  C2, as stated, at the tool name \<^verbatim>\<open>does_not_exist\<close>: dispatch returns without raising,
  but it appends no output at all, so there is no error payload for the call.
\<close>

theorem unknown_tool_counterexample:
  "dispatch_tool_call example_loads example_league
     (example_call ''call_1'' ''does_not_exist'' ''{}'') = Inr []"
  by (simp add: dispatch_tool_call_def example_call_def execute_tool_def)

text \<open>
  C2, amended. For a tool call whose name is none of \<^verbatim>\<open>get_waiver_wire\<close>,
  \<^verbatim>\<open>get_team_details\<close>, \<^verbatim>\<open>get_player_stats\<close>, dispatch completes without raising and
  produces no result: the turn goes on as if the call were not there.
\<close>

theorem unknown_tool_no_result:
  assumes "item_name tool_call = Some n" and "n \<notin> set local_tools"
  shows "dispatch_tool_call loads lg tool_call = Inr []
       \<and> execute_function_calls loads lg (tool_call # rest) function_call_outputs =
           execute_function_calls loads lg rest function_call_outputs"
proof -
  have "\<not> has_local_handler tool_call" using assms by (simp add: has_local_handler_def)
  then have "dispatch_tool_call loads lg tool_call = Inr []" by (rule dispatch_no_handler)
  then show ?thesis by simp
qed

theorem unknown_tool_no_result_witness:
  "dispatch_tool_call example_loads example_league
     (example_call ''call_1'' ''ping'' ''{}'') = Inr []
   \<and> execute_function_calls example_loads example_league
       [example_call ''call_1'' ''ping'' ''{}''] [] = Inr []"
proof -
  have h1: "item_name (example_call ''call_1'' ''ping'' ''{}'') = Some ''ping''"
    by (simp add: example_call_def)
  have h2: "''ping'' \<notin> set local_tools" by (simp add: local_tools_def)
  from unknown_tool_no_result[OF h1 h2, of example_loads example_league "[]" "[]"]
  show ?thesis by simp
qed

lemma parse_arguments_failure:
  "arguments tool_call = Some raw \<Longrightarrow> loads raw = None \<Longrightarrow> parse_arguments loads tool_call = JObj []"
  by (simp add: parse_arguments_def)

lemma dispatch_depends_on_parse:
  "parse_arguments loads tool_call = parse_arguments loads' tool_call \<Longrightarrow>
     dispatch_tool_call loads lg tool_call = dispatch_tool_call loads' lg tool_call"
  by (simp add: dispatch_tool_call_def)

text \<open>
  C4. When \<^verbatim>\<open>json.loads\<close> raises on the raw arguments, the arguments are the empty
  mapping: dispatch behaves as if they had parsed to \<^verbatim>\<open>{}\<close>, and invokes the handler of
  a local tool with the defaults (no position and size 3, no team id, no player id). The
  outcome is the handler's; the parse failure is not seen by the caller.
\<close>

theorem malformed_arguments_empty:
  assumes "arguments tool_call = Some raw" and "loads raw = None"
  shows "parse_arguments loads tool_call = JObj []
       \<and> dispatch_tool_call loads lg tool_call =
           dispatch_tool_call (\<lambda>raw. Some (JObj [])) lg tool_call
       \<and> (item_name tool_call = Some ''get_waiver_wire'' \<longrightarrow>
            dispatch_tool_call loads lg tool_call =
              map_sum id (\<lambda>result. [\<lparr>fco_call_id = call_id tool_call, fco_output = result\<rparr>])
                (get_waiver_wire_for_tool lg JNull (JInt 3)))
       \<and> (item_name tool_call = Some ''get_team_details'' \<longrightarrow>
            dispatch_tool_call loads lg tool_call =
              map_sum id (\<lambda>result. [\<lparr>fco_call_id = call_id tool_call, fco_output = result\<rparr>])
                (get_team_details_for_tool lg JNull))
       \<and> (item_name tool_call = Some ''get_player_stats'' \<longrightarrow>
            dispatch_tool_call loads lg tool_call =
              map_sum id (\<lambda>result. [\<lparr>fco_call_id = call_id tool_call, fco_output = result\<rparr>])
                (get_player_stats_for_tool lg JNull))"
proof -
  have p: "parse_arguments loads tool_call = JObj []"
    using assms by (rule parse_arguments_failure)
  have q: "parse_arguments (\<lambda>raw. Some (JObj [])) tool_call = JObj []"
    by (simp add: parse_arguments_def split: option.splits)
  have d: "dispatch_tool_call loads lg tool_call =
           dispatch_tool_call (\<lambda>raw. Some (JObj [])) lg tool_call"
    by (rule dispatch_depends_on_parse) (simp add: p q)
  have w: "item_name tool_call = Some ''get_waiver_wire'' \<longrightarrow>
            dispatch_tool_call loads lg tool_call =
              map_sum id (\<lambda>result. [\<lparr>fco_call_id = call_id tool_call, fco_output = result\<rparr>])
                (get_waiver_wire_for_tool lg JNull (JInt 3))"
    by (cases "get_waiver_wire_for_tool lg JNull (JInt 3)")
       (simp_all add: dispatch_tool_call_def p execute_tool_def)
  have t: "item_name tool_call = Some ''get_team_details'' \<longrightarrow>
            dispatch_tool_call loads lg tool_call =
              map_sum id (\<lambda>result. [\<lparr>fco_call_id = call_id tool_call, fco_output = result\<rparr>])
                (get_team_details_for_tool lg JNull)"
    by (cases "get_team_details_for_tool lg JNull")
       (simp_all add: dispatch_tool_call_def p execute_tool_def)
  have s: "item_name tool_call = Some ''get_player_stats'' \<longrightarrow>
            dispatch_tool_call loads lg tool_call =
              map_sum id (\<lambda>result. [\<lparr>fco_call_id = call_id tool_call, fco_output = result\<rparr>])
                (get_player_stats_for_tool lg JNull)"
    by (cases "get_player_stats_for_tool lg JNull")
       (simp_all add: dispatch_tool_call_def p execute_tool_def)
  from p d w t s show ?thesis by blast
qed

theorem malformed_arguments_empty_witness:
  "parse_arguments example_loads (example_call ''call_7'' ''get_team_details'' ''{team_id: '') = JObj []
   \<and> dispatch_tool_call example_loads example_league
        (example_call ''call_7'' ''get_team_details'' ''{team_id: '') =
      Inr [\<lparr>fco_call_id = Some ''call_7'', fco_output = ErrorResult (TeamNotFound JNull)\<rparr>]"
proof -
  have h1: "arguments (example_call ''call_7'' ''get_team_details'' ''{team_id: '') = Some ''{team_id: ''"
    by (simp add: example_call_def)
  have h2: "example_loads ''{team_id: '' = None" by (simp add: example_loads_def)
  have n: "item_name (example_call ''call_7'' ''get_team_details'' ''{team_id: '') = Some ''get_team_details''"
    by (simp add: example_call_def)
  have c: "call_id (example_call ''call_7'' ''get_team_details'' ''{team_id: '') = Some ''call_7''"
    by (simp add: example_call_def)
  have g: "get_team_details_for_tool example_league JNull = Inr (ErrorResult (TeamNotFound JNull))"
    by (simp add: get_team_details_for_tool_def example_league_def example_team_def)
  note t = malformed_arguments_empty[where tool_call = "example_call ''call_7'' ''get_team_details'' ''{team_id: ''"
         and raw = "''{team_id: ''" and loads = example_loads and lg = example_league, OF h1 h2]
  from t have a: "parse_arguments example_loads (example_call ''call_7'' ''get_team_details'' ''{team_id: '') = JObj []"
    by (rule conjunct1)
  from t n have b: "dispatch_tool_call example_loads example_league
        (example_call ''call_7'' ''get_team_details'' ''{team_id: '') =
      map_sum id (\<lambda>result. [\<lparr>fco_call_id = call_id (example_call ''call_7'' ''get_team_details'' ''{team_id: ''),
                                  fco_output = result\<rparr>])
        (get_team_details_for_tool example_league JNull)"
    by blast
  show ?thesis unfolding b c g using a by simp
qed

subsection \<open>The end of the conversation\<close>

lemma no_function_calls:
  "\<forall>it \<in> set its. item_type it \<noteq> Some ''function_call'' \<Longrightarrow> function_calls_to_execute its = []"
  by (induction its) auto

lemma function_calls_types:
  "it \<in> set (function_calls_to_execute its) \<Longrightarrow> item_type it = Some ''function_call''"
  by (induction its) (auto split: if_splits)

lemma function_calls_skip_search:
  "function_calls_to_execute (filter (\<lambda>it. item_type it \<noteq> Some ''web_search_call'') its) =
     function_calls_to_execute its"
  by (induction its) auto

lemma conversation_loop_done:
  "function_calls_to_execute (output_items r) = [] \<Longrightarrow>
     conversation_loop loads rnd create lg r w = Some (Inr r, w)"
  by (subst conversation_loop.simps) simp

lemma responses_first_success:
  "create (host_state w) req = (Inr r, h) \<Longrightarrow>
     responses_with_backoff rnd create req w = (Inr r, w\<lparr>host_state := h\<rparr>)"
  by (simp add: responses_with_backoff_def retry_call.simps)

text \<open>
  C5. A response whose output holds no function-call item ends the loop at once, however
  many web-search items it holds, and the run returns the text of that response. An item
  of type \<^verbatim>\<open>web_search_call\<close> is never among the calls to execute, and removing such
  items changes nothing in what is executed.
\<close>

theorem no_function_calls_terminates:
  assumes "\<forall>it \<in> set (output_items r). item_type it \<noteq> Some ''function_call''"
  shows "conversation_loop loads rnd create lg r w = Some (Inr r, w)
       \<and> (responses_with_backoff rnd create
             \<lparr>previous_response_id = None, request_input = Prompt prompt\<rparr> w0 = (Inr r, w)
            \<longrightarrow> analyze_with_openai loads rnd create lg prompt w0 = Some (Inr (extract_text r), w))
       \<and> (\<forall>it \<in> set (function_calls_to_execute (output_items r')).
             item_type it \<noteq> Some ''web_search_call'')
       \<and> function_calls_to_execute
            (filter (\<lambda>it. item_type it \<noteq> Some ''web_search_call'') (output_items r')) =
          function_calls_to_execute (output_items r')"
proof -
  have n: "function_calls_to_execute (output_items r) = []"
    using assms by (rule no_function_calls)
  have l: "conversation_loop loads rnd create lg r w = Some (Inr r, w)"
    using n by (rule conversation_loop_done)
  have a: "responses_with_backoff rnd create
             \<lparr>previous_response_id = None, request_input = Prompt prompt\<rparr> w0 = (Inr r, w)
            \<longrightarrow> analyze_with_openai loads rnd create lg prompt w0 = Some (Inr (extract_text r), w)"
    by (simp add: analyze_with_openai_def l)
  have s: "\<forall>it \<in> set (function_calls_to_execute (output_items r')).
             item_type it \<noteq> Some ''web_search_call''"
    by (auto dest: function_calls_types)
  have f: "function_calls_to_execute
            (filter (\<lambda>it. item_type it \<noteq> Some ''web_search_call'') (output_items r')) =
          function_calls_to_execute (output_items r')"
    by (rule function_calls_skip_search)
  from l a s f show ?thesis by blast
qed

theorem no_function_calls_terminates_witness:
  "analyze_with_openai example_loads example_rnd
     (scripted_host [Inr (example_response ''resp_1''
         [example_search, example_search, example_message ''Start Bo.''])])
     example_league ''Analyze my team'' example_world
   = Some (Inr ''Start Bo.'', \<lparr>host_state = 1, slept = []\<rparr>)"
proof -
  let ?r = "example_response ''resp_1'' [example_search, example_search, example_message ''Start Bo.'']"
  have h: "\<forall>it \<in> set (output_items ?r). item_type it \<noteq> Some ''function_call''"
    by (simp add: example_response_def example_search_def example_message_def)
  have c: "responses_with_backoff example_rnd (scripted_host [Inr ?r])
             \<lparr>previous_response_id = None, request_input = Prompt ''Analyze my team''\<rparr> example_world
           = (Inr ?r, \<lparr>host_state = 1, slept = []\<rparr>)"
    by (simp add: responses_first_success[where h = 1] scripted_host_def example_world_def)
  have e: "extract_text ?r = ''Start Bo.''"
    by (simp add: extract_text_def example_response_def example_search_def example_message_def
          message_text_def content_fragment_def)
  from no_function_calls_terminates[OF h, where loads = example_loads and rnd = example_rnd
         and create = "scripted_host [Inr ?r]" and lg = example_league
         and w = "\<lparr>host_state = 1, slept = []\<rparr>" and prompt = "''Analyze my team''"
         and ?w0.0 = example_world and r' = ?r] c e
  show ?thesis by simp
qed

lemma message_text_fragments:
  "concat (map message_text its) =
     concat (map (\<lambda>c. case content_text c of Some t \<Rightarrow> t | None \<Rightarrow> [])
       (filter (\<lambda>c. content_type c = Some ''output_text'')
         (concat (map (\<lambda>it. case content it of Some cs \<Rightarrow> cs | None \<Rightarrow> [])
           (filter (\<lambda>it. item_type it = Some ''message'') its)))))"
proof (induction its)
  case Nil
  show ?case by simp
next
  case (Cons it its)
  have frag: "\<And>cs. concat (map content_fragment cs) =
      concat (map (\<lambda>c. case content_text c of Some t \<Rightarrow> t | None \<Rightarrow> [])
        (filter (\<lambda>c. content_type c = Some ''output_text'') cs))"
    subgoal for cs by (induction cs) (auto simp: content_fragment_def)
    done
  show ?case using Cons
    by (auto simp: message_text_def frag split: option.splits)
qed

text \<open>
  C6, as stated, at a response with an empty \<^verbatim>\<open>output_text\<close> and no message item: the
  concatenation of the message fragments is empty, but the run returns the fixed text
  \<^verbatim>\<open>Analysis complete.\<close>
\<close>

theorem final_text_counterexample:
  "extract_text \<lparr>response_id = ''resp_9'', output_items = [example_search], output_text = Some ''''\<rparr>
     = ''Analysis complete.''
   \<and> message_fragments \<lparr>response_id = ''resp_9'', output_items = [example_search], output_text = Some ''''\<rparr>
     = ''''"
  by (simp add: extract_text_def message_fragments_def message_text_def example_search_def)

text \<open>
  C6, amended. A non-empty \<^verbatim>\<open>output_text\<close> is returned as it is. Otherwise the text is
  the in-order concatenation of the \<^verbatim>\<open>output_text\<close> fragments of the message items when
  that is non-empty, and the fixed text \<^verbatim>\<open>Analysis complete.\<close> when it is empty.
\<close>

theorem final_text_extraction:
  "(\<forall>t. output_text r = Some t \<and> t \<noteq> [] \<longrightarrow> extract_text r = t)
   \<and> (output_text r = None \<or> output_text r = Some [] \<longrightarrow>
        extract_text r =
          (if message_fragments r \<noteq> [] then message_fragments r else ''Analysis complete.''))"
proof -
  have m: "concat (map message_text (output_items r)) = message_fragments r"
    unfolding message_fragments_def by (rule message_text_fragments)
  show ?thesis
    by (auto simp: extract_text_def m Let_def)
qed

theorem final_text_extraction_witness:
  "extract_text \<lparr>response_id = ''resp_2'',
       output_items = [example_message ''Start '', example_search, example_message ''Bo.''],
       output_text = Some ''Bench Cy.''\<rparr> = ''Bench Cy.''
   \<and> extract_text \<lparr>response_id = ''resp_2'',
       output_items = [example_message ''Start '', example_search, example_message ''Bo.''],
       output_text = None\<rparr> = ''Start Bo.''"
proof -
  let ?its = "[example_message ''Start '', example_search, example_message ''Bo.'']"
  have f: "message_fragments \<lparr>response_id = ''resp_2'', output_items = ?its, output_text = None\<rparr>
             = ''Start Bo.''"
    by (simp add: message_fragments_def example_message_def example_search_def)
  from final_text_extraction[of "\<lparr>response_id = ''resp_2'', output_items = ?its, output_text = Some ''Bench Cy.''\<rparr>"]
  have a: "extract_text \<lparr>response_id = ''resp_2'', output_items = ?its, output_text = Some ''Bench Cy.''\<rparr>
             = ''Bench Cy.''" by simp
  from final_text_extraction[of "\<lparr>response_id = ''resp_2'', output_items = ?its, output_text = None\<rparr>"] f
  have b: "extract_text \<lparr>response_id = ''resp_2'', output_items = ?its, output_text = None\<rparr>
             = ''Start Bo.''" by simp
  from a b show ?thesis by simp
qed

subsection \<open>A turn of tool calls\<close>

lemma map_sum_not_None: "map_sum id Some x \<noteq> Inr None"
  by (cases x) simp_all

lemma execute_tool_local:
  "n \<in> set local_tools \<Longrightarrow> execute_tool lg n tool_args \<noteq> Inr None"
  by (auto simp: execute_tool_def local_tools_def map_sum_not_None split: sum.splits)

lemma dispatch_local_handler:
  assumes "has_local_handler tool_call" and "dispatch_tool_call loads lg tool_call = Inr outs"
  shows "\<exists>result. outs = [\<lparr>fco_call_id = call_id tool_call, fco_output = result\<rparr>]"
proof -
  from assms(1) obtain n where n: "item_name tool_call = Some n" "n \<in> set local_tools"
    by (auto simp: has_local_handler_def split: option.splits)
  then have ne: "n \<noteq> []" by (auto simp: local_tools_def)
  from execute_tool_local[OF n(2)] assms(2) n(1) ne show ?thesis
    by (auto simp: dispatch_tool_call_def Let_def split: sum.splits option.splits)
qed

lemma dispatch_call_ids:
  "dispatch_tool_call loads lg tool_call = Inr outs \<Longrightarrow>
     map fco_call_id outs = map call_id (filter has_local_handler [tool_call])"
  using dispatch_local_handler[of tool_call loads lg outs] dispatch_no_handler[of tool_call loads lg]
  by auto

lemma execute_function_calls_append:
  "execute_function_calls loads lg (xs @ ys) acc =
     (case execute_function_calls loads lg xs acc of
        Inl e \<Rightarrow> Inl e
      | Inr acc' \<Rightarrow> execute_function_calls loads lg ys acc')"
  by (induction xs arbitrary: acc) (auto split: sum.splits)

lemma execute_function_calls_outputs:
  "execute_function_calls loads lg calls acc = Inr outs \<Longrightarrow>
     outs = acc @ concat (map (outputs_of loads lg) calls)"
proof (induction calls arbitrary: acc)
  case Nil
  then show ?case by simp
next
  case (Cons tc calls)
  from Cons.prems obtain o1 where
    d: "dispatch_tool_call loads lg tc = Inr o1" and
    r: "execute_function_calls loads lg calls (acc @ o1) = Inr outs"
    by (auto split: sum.splits)
  from Cons.IH[OF r] d show ?case by (simp add: outputs_of_def)
qed

lemma execute_function_calls_ids:
  "execute_function_calls loads lg calls acc = Inr outs \<Longrightarrow>
     map fco_call_id outs = map fco_call_id acc @ map call_id (filter has_local_handler calls)"
proof (induction calls arbitrary: acc)
  case Nil
  then show ?case by simp
next
  case (Cons tc calls)
  from Cons.prems obtain o1 where
    d: "dispatch_tool_call loads lg tc = Inr o1" and
    r: "execute_function_calls loads lg calls (acc @ o1) = Inr outs"
    by (auto split: sum.splits)
  from Cons.IH[OF r] dispatch_call_ids[OF d] show ?case by simp
qed

lemma execute_function_calls_raise:
  "execute_function_calls loads lg pre acc = Inr acc' \<Longrightarrow>
   dispatch_tool_call loads lg tool_call = Inl e \<Longrightarrow>
     execute_function_calls loads lg (pre @ tool_call # rest) acc = Inl e"
  by (simp add: execute_function_calls_append)

lemma conversation_loop_step:
  "function_calls_to_execute (output_items r) = calls \<Longrightarrow> calls \<noteq> [] \<Longrightarrow>
   execute_function_calls loads lg calls [] = Inr outs \<Longrightarrow>
     conversation_loop loads rnd create lg r w =
       (case responses_with_backoff rnd create (continuation r outs) w of
          (Inl e, w') \<Rightarrow> Some (Inl e, w')
        | (Inr r', w') \<Rightarrow> conversation_loop loads rnd create lg r' w')"
  by (subst conversation_loop.simps) (auto split: list.splits)

lemma conversation_loop_raise:
  "function_calls_to_execute (output_items r) = calls \<Longrightarrow> calls \<noteq> [] \<Longrightarrow>
   execute_function_calls loads lg calls [] = Inl e \<Longrightarrow>
     conversation_loop loads rnd create lg r w = Some (Inl e, w)"
  by (subst conversation_loop.simps) (auto split: list.splits)

lemma subseq_call_ids: "subseq (map call_id (filter P calls)) (map call_id calls)"
  by (simp add: subseq_map)

lemmas dispatch_eval =
  dispatch_tool_call_def execute_tool_def parse_arguments_def example_call_def example_loads_def
  get_team_details_for_tool_def get_player_stats_for_tool_def team_roster_def has_player_id_def
  call_waiver_def call_team_def call_player_def call_unknown_def

lemma example_turn:
  "execute_function_calls example_loads example_league [call_waiver, call_team, call_player] [] =
     Inr [\<lparr>fco_call_id = Some ''call_a'', fco_output = WaiverWire (JStr ''All'')
            [example_entry 12 ''Bo'' ''WR'' ''KC'' (19 / 2) 10,
             example_entry 11 ''Ann'' ''RB'' ''DAL'' (26 / 5) 10,
             example_entry 14 ''Di'' ''TE'' ''GB'' 3 5] 3\<rparr>,
          \<lparr>fco_call_id = Some ''call_b'', fco_output = ErrorResult (TeamNotFound JNull)\<rparr>,
          \<lparr>fco_call_id = Some ''call_c'', fco_output = ErrorResult (PlayerNotFound JNull)\<rparr>]"
  by (simp add: dispatch_eval example_eval)

lemma example_turn_unknown:
  "execute_function_calls example_loads example_league [call_team, call_unknown, call_player] [] =
     Inr [\<lparr>fco_call_id = Some ''call_b'', fco_output = ErrorResult (TeamNotFound JNull)\<rparr>,
          \<lparr>fco_call_id = Some ''call_c'', fco_output = ErrorResult (PlayerNotFound JNull)\<rparr>]"
  by (simp add: dispatch_eval example_league_def example_team_def example_player_def)

text \<open>
  C7. The calls to execute are the function-call items in the order of the output. They
  are dispatched one after the other: running a sequence is running its first part, then
  the rest on the outputs collected so far, and the rest is not run when the first part
  raises. When the turn completes, the outputs are the per-call outputs concatenated in
  call order, their call ids follow the order of the calls, and this list is the input of
  the next request.
\<close>

theorem dispatch_order:
  "function_calls_to_execute its = filter (\<lambda>it. item_type it = Some ''function_call'') its
   \<and> execute_function_calls loads lg (xs @ ys) acc =
       (case execute_function_calls loads lg xs acc of
          Inl e \<Rightarrow> Inl e
        | Inr acc' \<Rightarrow> execute_function_calls loads lg ys acc')
   \<and> (execute_function_calls loads lg calls [] = Inr outs \<longrightarrow>
        outs = concat (map (outputs_of loads lg) calls)
        \<and> subseq (map fco_call_id outs) (map call_id calls)
        \<and> ((\<forall>tc \<in> set calls. has_local_handler tc) \<longrightarrow> map fco_call_id outs = map call_id calls)
        \<and> (function_calls_to_execute (output_items r) = calls \<and> calls \<noteq> [] \<longrightarrow>
             conversation_loop loads rnd create lg r w =
               (case responses_with_backoff rnd create
                       \<lparr>previous_response_id = Some (response_id r),
                          request_input = FunctionOutputs outs\<rparr> w of
                  (Inl e, w') \<Rightarrow> Some (Inl e, w')
                | (Inr r', w') \<Rightarrow> conversation_loop loads rnd create lg r' w')))"
proof (intro conjI impI)
  show "function_calls_to_execute its = filter (\<lambda>it. item_type it = Some ''function_call'') its"
    by (rule function_calls_filter)
  show "execute_function_calls loads lg (xs @ ys) acc =
       (case execute_function_calls loads lg xs acc of
          Inl e \<Rightarrow> Inl e
        | Inr acc' \<Rightarrow> execute_function_calls loads lg ys acc')"
    by (rule execute_function_calls_append)
next
  assume h: "execute_function_calls loads lg calls [] = Inr outs"
  from execute_function_calls_outputs[OF h]
  show "outs = concat (map (outputs_of loads lg) calls)" by simp
  have ids: "map fco_call_id outs = map call_id (filter has_local_handler calls)"
    using execute_function_calls_ids[OF h] by simp
  show "subseq (map fco_call_id outs) (map call_id calls)"
    unfolding ids by (rule subseq_call_ids)
  { assume "\<forall>tc \<in> set calls. has_local_handler tc"
    then have "filter has_local_handler calls = calls" by simp
    then show "map fco_call_id outs = map call_id calls" using ids by simp }
  { assume "function_calls_to_execute (output_items r) = calls \<and> calls \<noteq> []"
    then have c: "function_calls_to_execute (output_items r) = calls" and n: "calls \<noteq> []"
      by simp_all
    from conversation_loop_step[OF c n h]
    show "conversation_loop loads rnd create lg r w =
               (case responses_with_backoff rnd create
                       \<lparr>previous_response_id = Some (response_id r),
                          request_input = FunctionOutputs outs\<rparr> w of
                  (Inl e, w') \<Rightarrow> Some (Inl e, w')
                | (Inr r', w') \<Rightarrow> conversation_loop loads rnd create lg r' w')"
      by (simp add: continuation_def) }
qed

theorem dispatch_order_witness:
  "conversation_loop example_loads example_rnd
     (scripted_host [Inr (example_response ''resp_2'' [example_message ''Add Bo.''])])
     example_league
     (example_response ''resp_1''
        [example_search, call_waiver, call_team, example_search, call_player])
     example_world
   = Some (Inr (example_response ''resp_2'' [example_message ''Add Bo.'']),
           \<lparr>host_state = 1, slept = []\<rparr>)
   \<and> map fco_call_id
     [\<lparr>fco_call_id = Some ''call_a'', fco_output = WaiverWire (JStr ''All'')
            [example_entry 12 ''Bo'' ''WR'' ''KC'' (19 / 2) 10,
             example_entry 11 ''Ann'' ''RB'' ''DAL'' (26 / 5) 10,
             example_entry 14 ''Di'' ''TE'' ''GB'' 3 5] 3\<rparr>,
      \<lparr>fco_call_id = Some ''call_b'', fco_output = ErrorResult (TeamNotFound JNull)\<rparr>,
      \<lparr>fco_call_id = Some ''call_c'', fco_output = ErrorResult (PlayerNotFound JNull)\<rparr>]
   = map call_id [call_waiver, call_team, call_player]"
proof -
  let ?r1 = "example_response ''resp_1''
        [example_search, call_waiver, call_team, example_search, call_player]"
  let ?r2 = "example_response ''resp_2'' [example_message ''Add Bo.'']"
  let ?host = "scripted_host [Inr ?r2]"
  let ?outs = "[\<lparr>fco_call_id = Some ''call_a'', fco_output = WaiverWire (JStr ''All'')
            [example_entry 12 ''Bo'' ''WR'' ''KC'' (19 / 2) 10,
             example_entry 11 ''Ann'' ''RB'' ''DAL'' (26 / 5) 10,
             example_entry 14 ''Di'' ''TE'' ''GB'' 3 5] 3\<rparr>,
      \<lparr>fco_call_id = Some ''call_b'', fco_output = ErrorResult (TeamNotFound JNull)\<rparr>,
      \<lparr>fco_call_id = Some ''call_c'', fco_output = ErrorResult (PlayerNotFound JNull)\<rparr>]"
  have l: "\<forall>tc \<in> set [call_waiver, call_team, call_player]. has_local_handler tc"
    by (simp add: has_local_handler_def local_tools_def call_waiver_def call_team_def
          call_player_def example_call_def)
  have c: "function_calls_to_execute (output_items ?r1) = [call_waiver, call_team, call_player]
           \<and> [call_waiver, call_team, call_player] \<noteq> []"
    by (simp add: example_response_def example_search_def call_waiver_def call_team_def
          call_player_def example_call_def)
  note t = dispatch_order[where loads = example_loads and lg = example_league
         and calls = "[call_waiver, call_team, call_player]" and outs = ?outs and r = ?r1
         and rnd = example_rnd and create = ?host and w = example_world]
  from t example_turn l have ids: "map fco_call_id ?outs = map call_id [call_waiver, call_team, call_player]"
    by blast
  from t example_turn c have step:
    "conversation_loop example_loads example_rnd ?host example_league ?r1 example_world =
       (case responses_with_backoff example_rnd ?host
               \<lparr>previous_response_id = Some (response_id ?r1),
                  request_input = FunctionOutputs ?outs\<rparr> example_world of
          (Inl e, w') \<Rightarrow> Some (Inl e, w')
        | (Inr r', w') \<Rightarrow> conversation_loop example_loads example_rnd ?host example_league r' w')"
    by blast
  have rb: "responses_with_backoff example_rnd ?host
               \<lparr>previous_response_id = Some (response_id ?r1),
                  request_input = FunctionOutputs ?outs\<rparr> example_world
            = (Inr ?r2, \<lparr>host_state = 1, slept = []\<rparr>)"
    by (simp add: responses_first_success[where h = 1] scripted_host_def example_world_def)
  have fin: "conversation_loop example_loads example_rnd ?host example_league ?r2
               \<lparr>host_state = 1, slept = []\<rparr> = Some (Inr ?r2, \<lparr>host_state = 1, slept = []\<rparr>)"
    by (rule conversation_loop_done) (simp add: example_response_def example_message_def)
  have "conversation_loop example_loads example_rnd ?host example_league ?r1 example_world
          = Some (Inr ?r2, \<lparr>host_state = 1, slept = []\<rparr>)"
    unfolding step rb using fin by simp
  with ids show ?thesis by simp
qed

lemma execute_function_calls_each:
  "execute_function_calls loads lg calls acc = Inr outs \<Longrightarrow> tc \<in> set calls \<Longrightarrow>
     \<exists>os. dispatch_tool_call loads lg tc = Inr os"
  by (induction calls arbitrary: acc) (auto split: sum.splits)

text \<open>
  C1, as stated, at a turn with a call to an unknown tool between two calls to local tools:
  the turn completes with two outputs, and none carries the call id of the unknown call.
\<close>

theorem turn_results_counterexample:
  "function_calls_to_execute [call_team, call_unknown, call_player]
     = [call_team, call_unknown, call_player]
   \<and> execute_function_calls example_loads example_league [call_team, call_unknown, call_player] [] =
     Inr [\<lparr>fco_call_id = Some ''call_b'', fco_output = ErrorResult (TeamNotFound JNull)\<rparr>,
          \<lparr>fco_call_id = Some ''call_c'', fco_output = ErrorResult (PlayerNotFound JNull)\<rparr>]
   \<and> call_id call_unknown = Some ''call_u''"
  by (simp add: dispatch_eval example_league_def example_team_def example_player_def)

text \<open>
  C1, amended. When a turn with a non-empty sequence of collected calls completes, the
  resubmitted input holds exactly one output for each call whose tool name is
  \<^verbatim>\<open>get_waiver_wire\<close>, \<^verbatim>\<open>get_team_details\<close> or \<^verbatim>\<open>get_player_stats\<close>, with the call id of
  that call and in call order, and no output for any other call.
\<close>

theorem turn_results:
  assumes "function_calls_to_execute (output_items r) = calls" and "calls \<noteq> []"
      and "execute_function_calls loads lg calls [] = Inr outs"
  shows "outs = concat (map (outputs_of loads lg) calls)
       \<and> (\<forall>tc \<in> set calls. has_local_handler tc \<longrightarrow>
             (\<exists>result. outputs_of loads lg tc = [\<lparr>fco_call_id = call_id tc, fco_output = result\<rparr>]))
       \<and> (\<forall>tc \<in> set calls. \<not> has_local_handler tc \<longrightarrow> outputs_of loads lg tc = [])
       \<and> map fco_call_id outs = map call_id (filter has_local_handler calls)
       \<and> conversation_loop loads rnd create lg r w =
           (case responses_with_backoff rnd create
                   \<lparr>previous_response_id = Some (response_id r),
                      request_input = FunctionOutputs outs\<rparr> w of
              (Inl e, w') \<Rightarrow> Some (Inl e, w')
            | (Inr r', w') \<Rightarrow> conversation_loop loads rnd create lg r' w')"
proof -
  have a: "outs = concat (map (outputs_of loads lg) calls)"
    using execute_function_calls_outputs[OF assms(3)] by simp
  have b: "\<forall>tc \<in> set calls. has_local_handler tc \<longrightarrow>
             (\<exists>result. outputs_of loads lg tc = [\<lparr>fco_call_id = call_id tc, fco_output = result\<rparr>])"
  proof (intro ballI impI)
    fix tc assume tc: "tc \<in> set calls" and h: "has_local_handler tc"
    from execute_function_calls_each[OF assms(3) tc] obtain os where
      d: "dispatch_tool_call loads lg tc = Inr os" by blast
    from dispatch_local_handler[OF h d] d
    show "\<exists>result. outputs_of loads lg tc = [\<lparr>fco_call_id = call_id tc, fco_output = result\<rparr>]"
      by (simp add: outputs_of_def)
  qed
  have c: "\<forall>tc \<in> set calls. \<not> has_local_handler tc \<longrightarrow> outputs_of loads lg tc = []"
    by (simp add: outputs_of_def dispatch_no_handler)
  have d: "map fco_call_id outs = map call_id (filter has_local_handler calls)"
    using execute_function_calls_ids[OF assms(3)] by simp
  have e: "conversation_loop loads rnd create lg r w =
           (case responses_with_backoff rnd create
                   \<lparr>previous_response_id = Some (response_id r),
                      request_input = FunctionOutputs outs\<rparr> w of
              (Inl e, w') \<Rightarrow> Some (Inl e, w')
            | (Inr r', w') \<Rightarrow> conversation_loop loads rnd create lg r' w')"
    using conversation_loop_step[OF assms] by (simp add: continuation_def)
  from a b c d e show ?thesis by blast
qed

theorem turn_results_witness:
  "conversation_loop example_loads example_rnd
     (scripted_host [Inr (example_response ''resp_2'' [example_message ''Keep Ed.''])])
     example_league
     (example_response ''resp_1'' [call_team, call_unknown, call_player])
     example_world
   = Some (Inr (example_response ''resp_2'' [example_message ''Keep Ed.'']),
           \<lparr>host_state = 1, slept = []\<rparr>)
   \<and> map fco_call_id
        [\<lparr>fco_call_id = Some ''call_b'', fco_output = ErrorResult (TeamNotFound JNull)\<rparr>,
         \<lparr>fco_call_id = Some ''call_c'', fco_output = ErrorResult (PlayerNotFound JNull)\<rparr>]
      = map call_id (filter has_local_handler [call_team, call_unknown, call_player])"
proof -
  let ?r1 = "example_response ''resp_1'' [call_team, call_unknown, call_player]"
  let ?r2 = "example_response ''resp_2'' [example_message ''Keep Ed.'']"
  let ?host = "scripted_host [Inr ?r2]"
  let ?outs = "[\<lparr>fco_call_id = Some ''call_b'', fco_output = ErrorResult (TeamNotFound JNull)\<rparr>,
         \<lparr>fco_call_id = Some ''call_c'', fco_output = ErrorResult (PlayerNotFound JNull)\<rparr>]"
  have c: "function_calls_to_execute (output_items ?r1) = [call_team, call_unknown, call_player]"
    by (simp add: example_response_def call_team_def call_unknown_def call_player_def
          example_call_def)
  have n: "[call_team, call_unknown, call_player] \<noteq> []" by simp
  note t = turn_results[OF c n example_turn_unknown, where rnd = example_rnd and create = ?host
             and w = example_world]
  from t have ids: "map fco_call_id ?outs =
      map call_id (filter has_local_handler [call_team, call_unknown, call_player])" by blast
  from t have step:
    "conversation_loop example_loads example_rnd ?host example_league ?r1 example_world =
       (case responses_with_backoff example_rnd ?host
               \<lparr>previous_response_id = Some (response_id ?r1),
                  request_input = FunctionOutputs ?outs\<rparr> example_world of
          (Inl e, w') \<Rightarrow> Some (Inl e, w')
        | (Inr r', w') \<Rightarrow> conversation_loop example_loads example_rnd ?host example_league r' w')"
    by blast
  have rb: "responses_with_backoff example_rnd ?host
               \<lparr>previous_response_id = Some (response_id ?r1),
                  request_input = FunctionOutputs ?outs\<rparr> example_world
            = (Inr ?r2, \<lparr>host_state = 1, slept = []\<rparr>)"
    by (simp add: responses_first_success[where h = 1] scripted_host_def example_world_def)
  have fin: "conversation_loop example_loads example_rnd ?host example_league ?r2
               \<lparr>host_state = 1, slept = []\<rparr> = Some (Inr ?r2, \<lparr>host_state = 1, slept = []\<rparr>)"
    by (rule conversation_loop_done) (simp add: example_response_def example_message_def)
  have "conversation_loop example_loads example_rnd ?host example_league ?r1 example_world
          = Some (Inr ?r2, \<lparr>host_state = 1, slept = []\<rparr>)"
    unfolding step rb using fin by simp
  with ids show ?thesis by simp
qed

subsection \<open>Exceptions in handlers\<close>

lemma dispatch_raises:
  "item_name tool_call = Some n \<Longrightarrow> n \<noteq> [] \<Longrightarrow>
   execute_tool lg n (parse_arguments loads tool_call) = Inl e \<Longrightarrow>
     dispatch_tool_call loads lg tool_call = Inl e"
  by (simp add: dispatch_tool_call_def)

lemma dispatch_returns:
  "item_name tool_call = Some n \<Longrightarrow> n \<noteq> [] \<Longrightarrow>
   execute_tool lg n (parse_arguments loads tool_call) = Inr (Some result) \<Longrightarrow>
     dispatch_tool_call loads lg tool_call =
       Inr [\<lparr>fco_call_id = call_id tool_call, fco_output = result\<rparr>]"
  by (simp add: dispatch_tool_call_def)

lemma execute_tool_waiver_raises:
  "get_waiver_wire_for_tool lg
      (case map_of kvs ''position'' of None \<Rightarrow> JNull | Some v \<Rightarrow> v)
      (case map_of kvs ''size'' of None \<Rightarrow> JInt 3 | Some v \<Rightarrow> v) = Inl e \<Longrightarrow>
     execute_tool lg ''get_waiver_wire'' (JObj kvs) = Inl e"
  by (simp add: execute_tool_def)

text \<open>
  C3, as stated, at a league whose \<^verbatim>\<open>free_agents\<close> query raises: the exception leaves
  \<^verbatim>\<open>get_waiver_wire_for_tool\<close>, dispatch and the conversation loop, which ends with it
  without calling the host again.
\<close>

theorem handler_exception_counterexample:
  "get_waiver_wire_for_tool failing_league JNull (JInt 3) = Inl (ProviderError ''timeout'')
   \<and> dispatch_tool_call example_loads failing_league call_waiver = Inl (ProviderError ''timeout'')
   \<and> conversation_loop example_loads example_rnd (scripted_host []) failing_league
        (example_response ''resp_1'' [call_team, call_waiver]) example_world
      = Some (Inl (ProviderError ''timeout''), example_world)"
proof -
  have a: "get_waiver_wire_for_tool failing_league JNull (JInt 3) = Inl (ProviderError ''timeout'')"
    by (simp add: get_waiver_wire_for_tool_def failing_league_def valid_positions_def)
  have b: "dispatch_tool_call example_loads failing_league call_waiver = Inl (ProviderError ''timeout'')"
    by (simp add: dispatch_eval a)
  have t: "dispatch_tool_call example_loads failing_league call_team =
             Inr [\<lparr>fco_call_id = Some ''call_b'', fco_output = ErrorResult (TeamNotFound JNull)\<rparr>]"
    by (simp add: dispatch_eval failing_league_def example_team_def)
  have c: "function_calls_to_execute (output_items (example_response ''resp_1'' [call_team, call_waiver]))
             = [call_team, call_waiver]"
    by (simp add: example_response_def call_team_def call_waiver_def example_call_def)
  have e: "execute_function_calls example_loads failing_league [call_team, call_waiver] []
             = Inl (ProviderError ''timeout'')"
    by (simp add: b t)
  from conversation_loop_raise[OF c _ e] a b show ?thesis by simp
qed

text \<open>
  C3, amended. For a call to a named tool, what the tool returns, an error payload
  included, becomes the output for the call id. An exception raised while the tool runs
  is not caught: it leaves dispatch, the calls after it in the turn are not run, and the
  conversation loop ends with it.
\<close>

theorem handler_exception_propagates:
  assumes "item_name tool_call = Some n" and "n \<noteq> []"
  shows "(execute_tool lg n (parse_arguments loads tool_call) = Inr (Some result) \<longrightarrow>
            dispatch_tool_call loads lg tool_call =
              Inr [\<lparr>fco_call_id = call_id tool_call, fco_output = result\<rparr>])
       \<and> (execute_tool lg n (parse_arguments loads tool_call) = Inl e \<longrightarrow>
            dispatch_tool_call loads lg tool_call = Inl e
            \<and> (execute_function_calls loads lg pre acc = Inr acc' \<longrightarrow>
                 execute_function_calls loads lg (pre @ tool_call # rest) acc = Inl e)
            \<and> (function_calls_to_execute (output_items r) = pre @ tool_call # rest
                 \<and> execute_function_calls loads lg pre [] = Inr acc' \<longrightarrow>
                 conversation_loop loads rnd create lg r w = Some (Inl e, w)))
       \<and> (n = ''get_waiver_wire'' \<and> parse_arguments loads tool_call = JObj kvs
            \<and> get_waiver_wire_for_tool lg
                 (case map_of kvs ''position'' of None \<Rightarrow> JNull | Some v \<Rightarrow> v)
                 (case map_of kvs ''size'' of None \<Rightarrow> JInt 3 | Some v \<Rightarrow> v) = Inl e \<longrightarrow>
            dispatch_tool_call loads lg tool_call = Inl e)"
proof (intro conjI impI)
  assume "execute_tool lg n (parse_arguments loads tool_call) = Inr (Some result)"
  with assms show "dispatch_tool_call loads lg tool_call =
              Inr [\<lparr>fco_call_id = call_id tool_call, fco_output = result\<rparr>]"
    by (rule dispatch_returns)
next
  assume x: "execute_tool lg n (parse_arguments loads tool_call) = Inl e"
  with assms show d: "dispatch_tool_call loads lg tool_call = Inl e"
    by (rule dispatch_raises)
  { assume "execute_function_calls loads lg pre acc = Inr acc'"
    then show "execute_function_calls loads lg (pre @ tool_call # rest) acc = Inl e"
      using d by (rule execute_function_calls_raise) }
  { assume "function_calls_to_execute (output_items r) = pre @ tool_call # rest
                 \<and> execute_function_calls loads lg pre [] = Inr acc'"
    then have c: "function_calls_to_execute (output_items r) = pre @ tool_call # rest"
      and p: "execute_function_calls loads lg pre [] = Inr acc'" by simp_all
    have "execute_function_calls loads lg (pre @ tool_call # rest) [] = Inl e"
      using p d by (rule execute_function_calls_raise)
    with c show "conversation_loop loads rnd create lg r w = Some (Inl e, w)"
      by (intro conversation_loop_raise[OF c]) simp_all }
next
  assume "n = ''get_waiver_wire'' \<and> parse_arguments loads tool_call = JObj kvs
            \<and> get_waiver_wire_for_tool lg
                 (case map_of kvs ''position'' of None \<Rightarrow> JNull | Some v \<Rightarrow> v)
                 (case map_of kvs ''size'' of None \<Rightarrow> JInt 3 | Some v \<Rightarrow> v) = Inl e"
  then have "execute_tool lg n (parse_arguments loads tool_call) = Inl e"
    by (simp add: execute_tool_waiver_raises)
  with assms show "dispatch_tool_call loads lg tool_call = Inl e"
    by (rule dispatch_raises)
qed

theorem handler_exception_propagates_witness:
  "dispatch_tool_call example_loads example_league call_team =
     Inr [\<lparr>fco_call_id = Some ''call_b'', fco_output = ErrorResult (TeamNotFound JNull)\<rparr>]
   \<and> dispatch_tool_call example_loads failing_league call_waiver = Inl (ProviderError ''timeout'')
   \<and> execute_function_calls example_loads failing_league
        ([call_team] @ call_waiver # [call_player]) [] = Inl (ProviderError ''timeout'')
   \<and> conversation_loop example_loads example_rnd (scripted_host flaky_script) failing_league
        (example_response ''resp_1'' [call_team, call_waiver, call_player]) example_world
      = Some (Inl (ProviderError ''timeout''), example_world)"
proof -
  let ?r = "example_response ''resp_1'' [call_team, call_waiver, call_player]"
  let ?out = "[\<lparr>fco_call_id = Some ''call_b'', fco_output = ErrorResult (TeamNotFound JNull)\<rparr>]"
  have n1: "item_name call_team = Some ''get_team_details''" "''get_team_details'' \<noteq> []"
    by (simp_all add: call_team_def example_call_def)
  have n2: "item_name call_waiver = Some ''get_waiver_wire''" "''get_waiver_wire'' \<noteq> []"
    by (simp_all add: call_waiver_def example_call_def)
  have x1: "execute_tool example_league ''get_team_details'' (parse_arguments example_loads call_team)
              = Inr (Some (ErrorResult (TeamNotFound JNull)))"
    by (simp add: dispatch_eval example_league_def example_team_def)
  have x2: "execute_tool failing_league ''get_waiver_wire'' (parse_arguments example_loads call_waiver)
              = Inl (ProviderError ''timeout'')"
    by (simp add: dispatch_eval get_waiver_wire_for_tool_def failing_league_def valid_positions_def)
  have x3: "''get_waiver_wire'' = ''get_waiver_wire''
            \<and> parse_arguments example_loads call_waiver = JObj []
            \<and> get_waiver_wire_for_tool failing_league
                 (case map_of [] ''position'' of None \<Rightarrow> JNull | Some v \<Rightarrow> v)
                 (case map_of [] ''size'' of None \<Rightarrow> JInt 3 | Some v \<Rightarrow> v)
               = Inl (ProviderError ''timeout'')"
    by (simp add: dispatch_eval get_waiver_wire_for_tool_def failing_league_def valid_positions_def)
  have p: "execute_function_calls example_loads failing_league [call_team] [] = Inr ?out"
    by (simp add: dispatch_eval failing_league_def example_team_def)
  have c: "function_calls_to_execute (output_items ?r) = [call_team] @ call_waiver # [call_player]"
    by (simp add: example_response_def call_team_def call_waiver_def call_player_def
          example_call_def)
  from handler_exception_propagates[OF n1, where lg = example_league and loads = example_loads
         and result = "ErrorResult (TeamNotFound JNull)"] x1
  have a: "dispatch_tool_call example_loads example_league call_team = Inr ?out"
    by (simp add: call_team_def example_call_def)
  note t = handler_exception_propagates[OF n2, where lg = failing_league and loads = example_loads
         and e = "ProviderError ''timeout''" and pre = "[call_team]" and acc = "[]"
         and acc' = ?out and rest = "[call_player]" and kvs = "[]" and r = ?r
         and rnd = example_rnd and create = "scripted_host flaky_script" and w = example_world]
  from t x3 have b: "dispatch_tool_call example_loads failing_league call_waiver
                       = Inl (ProviderError ''timeout'')"
    by blast
  from t x2 p have d: "execute_function_calls example_loads failing_league
        ([call_team] @ call_waiver # [call_player]) [] = Inl (ProviderError ''timeout'')"
    by blast
  from t x2 p c have e: "conversation_loop example_loads example_rnd (scripted_host flaky_script)
        failing_league ?r example_world = Some (Inl (ProviderError ''timeout''), example_world)"
    by blast
  from a b d e show ?thesis by blast
qed

subsection \<open>The retry wrapper\<close>

lemma backoff_bound_range: "wait_floor \<le> backoff_bound attempt \<and> backoff_bound attempt \<le> wait_ceiling"
  by (simp add: backoff_bound_def wait_floor_def wait_ceiling_def)

lemma wait_random_exponential_range:
  assumes "0 \<le> u" and "u \<le> 1"
  shows "1 \<le> wait_random_exponential u attempt \<and> wait_random_exponential u attempt \<le> 60"
proof -
  let ?b = "backoff_bound attempt"
  have b: "1 \<le> ?b" "?b \<le> 60"
    using backoff_bound_range[of attempt] by (simp_all add: wait_floor_def wait_ceiling_def)
  have "0 \<le> u * (?b - 1)" using assms(1) b(1) by simp
  moreover have "u * (?b - 1) \<le> 1 * (?b - 1)"
    using assms(2) b(1) by (intro mult_right_mono) simp_all
  ultimately show ?thesis using b(2) by (simp add: wait_random_exponential_def wait_floor_def)
qed

lemma delays_after_range:
  assumes "\<forall>n. 0 \<le> rnd n \<and> rnd n \<le> 1"
  shows "\<forall>d \<in> set (delays_after rnd n0 m). 1 \<le> d \<and> d \<le> 60"
  using assms by (auto simp: delays_after_def wait_random_exponential_range)

text \<open>The run from attempt \<open>a\<close> on: \<open>j\<close> failures, then a success.\<close>

lemma retry_call_success:
  assumes "a + j \<le> max_attempts"
      and "\<forall>i < j. isl (fst (create (host_after create req (host_state w) i) req))"
      and "fst (create (host_after create req (host_state w) j) req) = Inr r"
  shows "retry_call rnd create req a w =
           (Inr r,
            w\<lparr>host_state := host_after create req (host_state w) (Suc j),
              slept := slept w @ map (\<lambda>i. wait_random_exponential (rnd (length (slept w) + i)) (a + i)) [0..<j]\<rparr>,
            a + j)"
  using assms
proof (induction j arbitrary: a w)
  case 0
  then show ?case
    by (subst retry_call.simps) (auto split: prod.splits sum.splits)
next
  case (Suc j)
  from Suc.prems(2) obtain e h where
    c: "create (host_state w) req = (Inl e, h)"
    by (cases "create (host_state w) req") (force simp: isl_def)
  let ?w = "w\<lparr>host_state := h, slept := slept w @ [wait_random_exponential (rnd (length (slept w))) a]\<rparr>"
  have shift: "\<And>i. host_after create req h i = host_after create req (host_state w) (Suc i)"
    subgoal for i by (induction i) (simp_all add: c)
    done
  have na: "\<not> max_attempts \<le> a" using Suc.prems(1) by simp
  have step: "retry_call rnd create req a w = retry_call rnd create req (Suc a) ?w"
    by (subst retry_call.simps) (simp add: c na)
  have p1: "Suc a + j \<le> max_attempts" using Suc.prems(1) by simp
  have p2: "\<forall>i < j. isl (fst (create (host_after create req (host_state ?w) i) req))"
    using Suc.prems(2) by (auto simp: shift)
  have p3: "fst (create (host_after create req (host_state ?w) j) req) = Inr r"
    using Suc.prems(3) by (simp add: shift)
  have m: "map (\<lambda>i. wait_random_exponential (rnd (length (slept w) + i)) (a + i)) [0..<Suc j]
           = wait_random_exponential (rnd (length (slept w))) a #
             map (\<lambda>i. wait_random_exponential (rnd (Suc (length (slept w)) + i)) (Suc a + i)) [0..<j]"
    by (simp add: upt_rec[of 0 "Suc j"] map_Suc_upt[symmetric] del: upt_Suc)
  show ?case
    unfolding step Suc.IH[OF p1 p2 p3] m
    by (simp add: shift)
qed

text \<open>The run from attempt \<open>a\<close> on when every attempt up to the last one fails.\<close>

lemma retry_call_exhausted:
  assumes "a + j = max_attempts"
      and "\<forall>i \<le> j. isl (fst (create (host_after create req (host_state w) i) req))"
  shows "retry_call rnd create req a w =
           (fst (create (host_after create req (host_state w) j) req),
            w\<lparr>host_state := host_after create req (host_state w) (Suc j),
              slept := slept w @ map (\<lambda>i. wait_random_exponential (rnd (length (slept w) + i)) (a + i)) [0..<j]\<rparr>,
            max_attempts)"
  using assms
proof (induction j arbitrary: a w)
  case 0
  from "0.prems"(2) obtain e h where c: "create (host_state w) req = (Inl e, h)"
    by (cases "create (host_state w) req") (force simp: isl_def)
  from "0.prems"(1) have a: "a = max_attempts" by simp
  show ?case
    by (subst retry_call.simps) (simp add: c a)
next
  case (Suc j)
  from Suc.prems(2) obtain e h where
    c: "create (host_state w) req = (Inl e, h)"
    by (cases "create (host_state w) req") (force simp: isl_def)
  let ?w = "w\<lparr>host_state := h, slept := slept w @ [wait_random_exponential (rnd (length (slept w))) a]\<rparr>"
  have shift: "\<And>i. host_after create req h i = host_after create req (host_state w) (Suc i)"
    subgoal for i by (induction i) (simp_all add: c)
    done
  have na: "\<not> max_attempts \<le> a" using Suc.prems(1) by simp
  have step: "retry_call rnd create req a w = retry_call rnd create req (Suc a) ?w"
    by (subst retry_call.simps) (simp add: c na)
  have p1: "Suc a + j = max_attempts" using Suc.prems(1) by simp
  have p2: "\<forall>i \<le> j. isl (fst (create (host_after create req (host_state ?w) i) req))"
    using Suc.prems(2) by (auto simp: shift)
  have m: "map (\<lambda>i. wait_random_exponential (rnd (length (slept w) + i)) (a + i)) [0..<Suc j]
           = wait_random_exponential (rnd (length (slept w))) a #
             map (\<lambda>i. wait_random_exponential (rnd (Suc (length (slept w)) + i)) (Suc a + i)) [0..<j]"
    by (simp add: upt_rec[of 0 "Suc j"] map_Suc_upt[symmetric] del: upt_Suc)
  show ?case
    unfolding step Suc.IH[OF p1 p2] m
    by (simp add: shift)
qed

lemma example_rnd_unit: "\<forall>n. 0 \<le> example_rnd n \<and> example_rnd n \<le> 1"
  by (simp add: example_rnd_def)

lemmas retry_eval =
  attempt_result_def scripted_host_def flaky_script_def example_world_def eval_nat_numeral
  delays_after_def wait_random_exponential_def backoff_bound_def wait_floor_def wait_ceiling_def
  example_rnd_def

text \<open>
  C8. With random draws in the unit interval: if attempt \<open>k \<le> 6\<close> is the first to
  succeed, the wrapper returns its response after \<open>k\<close> attempts and \<open>k - 1\<close> delays; if
  the first six attempts raise, whatever the exceptions, the wrapper raises the sixth
  exception after exactly six attempts and five delays; every delay lies between 1 and 60.
\<close>

theorem retry_policy:
  assumes "\<forall>n. 0 \<le> rnd n \<and> rnd n \<le> 1"
  shows "(1 \<le> k \<and> k \<le> 6
            \<and> (\<forall>j \<in> set [1..<k]. isl (attempt_result create req (host_state w) j))
            \<and> attempt_result create req (host_state w) k = Inr r
          \<longrightarrow> retry_call rnd create req 1 w =
                (Inr r,
                 w\<lparr>host_state := host_after create req (host_state w) k,
                   slept := slept w @ delays_after rnd (length (slept w)) (k - 1)\<rparr>,
                 k)
              \<and> responses_with_backoff rnd create req w =
                (Inr r,
                 w\<lparr>host_state := host_after create req (host_state w) k,
                   slept := slept w @ delays_after rnd (length (slept w)) (k - 1)\<rparr>))
       \<and> ((\<forall>j \<in> set [1..<7]. isl (attempt_result create req (host_state w) j))
          \<longrightarrow> retry_call rnd create req 1 w =
                (attempt_result create req (host_state w) 6,
                 w\<lparr>host_state := host_after create req (host_state w) 6,
                   slept := slept w @ delays_after rnd (length (slept w)) 5\<rparr>,
                 6)
              \<and> responses_with_backoff rnd create req w =
                (attempt_result create req (host_state w) 6,
                 w\<lparr>host_state := host_after create req (host_state w) 6,
                   slept := slept w @ delays_after rnd (length (slept w)) 5\<rparr>))
       \<and> (\<forall>d \<in> set (delays_after rnd n0 m). 1 \<le> d \<and> d \<le> 60)"
proof (intro conjI impI)
  assume h: "1 \<le> k \<and> k \<le> 6
            \<and> (\<forall>j \<in> set [1..<k]. isl (attempt_result create req (host_state w) j))
            \<and> attempt_result create req (host_state w) k = Inr r"
  then obtain j where k: "k = Suc j" by (cases k) auto
  have p1: "1 + j \<le> max_attempts" using h k by (simp add: max_attempts_def)
  have p2: "\<forall>i < j. isl (fst (create (host_after create req (host_state w) i) req))"
  proof (intro allI impI)
    fix i assume "i < j"
    then have "Suc i \<in> set [1..<k]" using k by (simp only: set_upt atLeastLessThan_iff) simp
    with h have "isl (attempt_result create req (host_state w) (Suc i))" by blast
    then show "isl (fst (create (host_after create req (host_state w) i) req))"
      by (simp add: attempt_result_def)
  qed
  have p3: "fst (create (host_after create req (host_state w) j) req) = Inr r"
    using h k by (simp add: attempt_result_def)
  from retry_call_success[OF p1 p2 p3, of rnd]
  show a: "retry_call rnd create req 1 w =
                (Inr r,
                 w\<lparr>host_state := host_after create req (host_state w) k,
                   slept := slept w @ delays_after rnd (length (slept w)) (k - 1)\<rparr>,
                 k)"
    by (simp add: k delays_after_def)
  show "responses_with_backoff rnd create req w =
                (Inr r,
                 w\<lparr>host_state := host_after create req (host_state w) k,
                   slept := slept w @ delays_after rnd (length (slept w)) (k - 1)\<rparr>)"
    unfolding responses_with_backoff_def a by simp
next
  assume h: "\<forall>j \<in> set [1..<7]. isl (attempt_result create req (host_state w) j)"
  have p1: "1 + 5 = max_attempts" by (simp add: max_attempts_def)
  have p2: "\<forall>i \<le> 5. isl (fst (create (host_after create req (host_state w) i) req))"
  proof (intro allI impI)
    fix i :: nat assume "i \<le> 5"
    then have "Suc i \<in> set [1..<7]" by (simp only: set_upt atLeastLessThan_iff) simp
    with h have "isl (attempt_result create req (host_state w) (Suc i))" by blast
    then show "isl (fst (create (host_after create req (host_state w) i) req))"
      by (simp add: attempt_result_def)
  qed
  from retry_call_exhausted[OF p1 p2, of rnd]
  show a: "retry_call rnd create req 1 w =
                (attempt_result create req (host_state w) 6,
                 w\<lparr>host_state := host_after create req (host_state w) 6,
                   slept := slept w @ delays_after rnd (length (slept w)) 5\<rparr>,
                 6)"
    by (simp add: delays_after_def attempt_result_def max_attempts_def eval_nat_numeral)
  show "responses_with_backoff rnd create req w =
                (attempt_result create req (host_state w) 6,
                 w\<lparr>host_state := host_after create req (host_state w) 6,
                   slept := slept w @ delays_after rnd (length (slept w)) 5\<rparr>)"
    unfolding responses_with_backoff_def a by simp
next
  show "\<forall>d \<in> set (delays_after rnd n0 m). 1 \<le> d \<and> d \<le> 60"
    using assms by (rule delays_after_range)
qed

theorem retry_policy_witness:
  "responses_with_backoff example_rnd (scripted_host flaky_script) example_request example_world
     = (Inr (example_response ''resp_1'' [example_message ''Start Bo.'']),
        \<lparr>host_state = 6, slept = [1, 3 / 2, 5 / 2, 9 / 2, 17 / 2]\<rparr>)
   \<and> retry_call example_rnd (scripted_host []) example_request 1 example_world
     = (Inl (HostError ''script ended''),
        \<lparr>host_state = 6, slept = [1, 3 / 2, 5 / 2, 9 / 2, 17 / 2]\<rparr>, 6)
   \<and> 1 \<le> last (delays_after example_rnd 0 5) \<and> last (delays_after example_rnd 0 5) \<le> 60"
proof -
  note t1 = retry_policy[OF example_rnd_unit, where k = 6 and create = "scripted_host flaky_script"
      and req = example_request and w = example_world
      and r = "example_response ''resp_1'' [example_message ''Start Bo.'']"]
  note t2 = retry_policy[OF example_rnd_unit, where create = "scripted_host []"
      and req = example_request and w = example_world and ?n0.0 = 0 and m = 5]
  have h1: "1 \<le> (6::nat) \<and> (6::nat) \<le> 6
            \<and> (\<forall>j \<in> set [1..<6].
                 isl (attempt_result (scripted_host flaky_script) example_request (host_state example_world) j))
            \<and> attempt_result (scripted_host flaky_script) example_request (host_state example_world) 6
                = Inr (example_response ''resp_1'' [example_message ''Start Bo.''])"
    by (simp add: retry_eval)
  have h2: "\<forall>j \<in> set [1..<7].
              isl (attempt_result (scripted_host []) example_request (host_state example_world) j)"
    by (simp add: retry_eval)
  from t1 h1 have a: "responses_with_backoff example_rnd (scripted_host flaky_script) example_request example_world
     = (Inr (example_response ''resp_1'' [example_message ''Start Bo.'']),
        example_world\<lparr>host_state := host_after (scripted_host flaky_script) example_request (host_state example_world) 6,
                   slept := slept example_world @ delays_after example_rnd (length (slept example_world)) (6 - 1)\<rparr>)"
    by blast
  from t2 h2 have b: "retry_call example_rnd (scripted_host []) example_request 1 example_world
     = (attempt_result (scripted_host []) example_request (host_state example_world) 6,
        example_world\<lparr>host_state := host_after (scripted_host []) example_request (host_state example_world) 6,
                   slept := slept example_world @ delays_after example_rnd (length (slept example_world)) 5\<rparr>, 6)"
    by blast
  from t2 have c: "\<forall>d \<in> set (delays_after example_rnd 0 5). 1 \<le> d \<and> d \<le> 60"
    by blast
  have "responses_with_backoff example_rnd (scripted_host flaky_script) example_request example_world
     = (Inr (example_response ''resp_1'' [example_message ''Start Bo.'']),
        \<lparr>host_state = 6, slept = [1, 3 / 2, 5 / 2, 9 / 2, 17 / 2]\<rparr>)
   \<and> retry_call example_rnd (scripted_host []) example_request 1 example_world
     = (Inl (HostError ''script ended''),
        \<lparr>host_state = 6, slept = [1, 3 / 2, 5 / 2, 9 / 2, 17 / 2]\<rparr>, 6)"
    unfolding a b by (simp add: retry_eval)
  moreover have "last (delays_after example_rnd 0 5) \<in> set (delays_after example_rnd 0 5)"
    by (rule last_in_set) (simp add: delays_after_def)
  ultimately show ?thesis using c by blast
qed

end
